theory Spec2Isabelle
  imports Complex_Main
begin

section \<open>Text helpers of the activity bot\<close>

text \<open>
  The bot is JavaScript; its strings are modelled as \<open>string\<close> (lists of 8-bit
  characters, read as the code units 0..255). \<open>undefined\<close> and \<open>null\<close> are both
  \<open>None\<close>: the code only ever tests them with \<open>== null\<close>, \<open>||\<close> or \<open>!\<close>.
\<close>

definition isSpace :: "char \<Rightarrow> bool" where
  \<comment> \<open>the class \<open>\s\<close> of a regular expression and the characters \<open>trim()\<close> removes\<close>
  "isSpace c = (of_char c \<in> {9, 10, 11, 12, 13, 32, 160 :: nat})"

definition isDigit :: "char \<Rightarrow> bool" where
  "isDigit c = (48 \<le> (of_char c :: nat) \<and> (of_char c :: nat) \<le> 57)"

definition isWordChar :: "char \<Rightarrow> bool" where
  \<comment> \<open>the class \<open>\w\<close>, which is \<open>[A-Za-z0-9_]\<close>\<close>
  "isWordChar c = (let n = (of_char c :: nat) in
     (48 \<le> n \<and> n \<le> 57) \<or> (65 \<le> n \<and> n \<le> 90) \<or> (97 \<le> n \<and> n \<le> 122) \<or> n = 95)"

definition isHexDigit :: "char \<Rightarrow> bool" where
  \<comment> \<open>the class \<open>[0-9a-f]\<close> under the flag \<open>i\<close>\<close>
  "isHexDigit c = (let n = (of_char c :: nat) in
     (48 \<le> n \<and> n \<le> 57) \<or> (65 \<le> n \<and> n \<le> 70) \<or> (97 \<le> n \<and> n \<le> 102))"

definition lowerChar :: "char \<Rightarrow> char" where
  \<comment> \<open>a capital letter (A-Z, or a Latin-1 capital) moves up by 32, which sets bit 5\<close>
  "lowerChar c = (let n = (of_char c :: nat) in
     if (65 \<le> n \<and> n \<le> 90) \<or> (192 \<le> n \<and> n \<le> 222 \<and> n \<noteq> 215)
     then (case c of Char b0 b1 b2 b3 b4 b5 b6 b7 \<Rightarrow> Char b0 b1 b2 b3 b4 True b6 b7) else c)"

definition toLowerCase :: "string \<Rightarrow> string" where
  "toLowerCase s = map lowerChar s"

definition trim :: "string \<Rightarrow> string" where
  "trim s = rev (dropWhile isSpace (rev (dropWhile isSpace s)))"

definition startsWith :: "string \<Rightarrow> string \<Rightarrow> bool" where
  "startsWith s p = (take (length p) s = p)"

fun replaceFirst :: "string \<Rightarrow> string \<Rightarrow> string \<Rightarrow> string" where
  \<comment> \<open>\<open>s.replace(p, r)\<close> with a string pattern: the first occurrence only\<close>
  "replaceFirst p r [] = (if p = [] then r else [])"
| "replaceFirst p r (c # cs) =
     (if take (length p) (c # cs) = p then r @ drop (length p) (c # cs)
      else c # replaceFirst p r cs)"

definition normalizeText :: "string option \<Rightarrow> string" where
  \<comment> \<open>\<open>String(s || '').trim()\<close>\<close>
  "normalizeText s = (case s of None \<Rightarrow> [] | Some t \<Rightarrow> trim t)"

definition isSkipText :: "string option \<Rightarrow> bool" where
  "isSkipText text =
     (let t = toLowerCase (normalizeText text) in
      if t = [] then False
      else t = ''skip'' \<or> t = ''/skip'' \<or> startsWith t ''/skip@'')"

section \<open>The count parser\<close>

datatype jsnum = NaN | Infinity | NegInfinity | Fin rat

definition digitsValue :: "string \<Rightarrow> nat" where
  "digitsValue ds = foldl (\<lambda>a c. 10 * a + (of_char c - 48)) 0 ds"

definition infinityBound :: rat where
  \<comment> \<open>decimal values from here on round to \<open>Infinity\<close> in binary64\<close>
  "infinityBound = 2 ^ 1024 - 2 ^ 970"

definition jsNumber :: "string \<Rightarrow> jsnum" where
  \<comment> \<open>\<open>Number(s)\<close> for a string of digits and dots that starts with a digit, the only
      strings \<open>parseCountInput\<close> passes to it. \<open>Fin v\<close> is the binary64 number nearest to
      the decimal value \<open>v\<close>; the rounding itself is not represented.\<close>
  "jsNumber s =
     (let ip = takeWhile isDigit s; r = dropWhile isDigit s in
      if ip = [] then NaN
      else if r = [] then
        (if rat_of_nat (digitsValue ip) < infinityBound then Fin (rat_of_nat (digitsValue ip)) else Infinity)
      else if hd r = CHR ''.'' \<and> list_all isDigit (tl r) then
        (let v = rat_of_nat (digitsValue ip) + rat_of_nat (digitsValue (tl r)) / 10 ^ length (tl r)
         in if v < infinityBound then Fin v else Infinity)
      else NaN)"

datatype cnt = CNum jsnum | CText string

definition isCountSeparator :: "char \<Rightarrow> bool" where
  \<comment> \<open>the class \<open>[\s,._-]\<close>\<close>
  "isCountSeparator c = (isSpace c \<or> c = CHR '','' \<or> c = CHR ''.'' \<or> c = CHR ''_'' \<or> c = CHR ''-'')"

definition allZeros :: "string \<Rightarrow> bool" where
  \<comment> \<open>\<open>/^0+$/\<close>\<close>
  "allZeros s = (s \<noteq> [] \<and> list_all (\<lambda>c. c = CHR ''0'') s)"

definition inDigitRun :: "char \<Rightarrow> bool" where
  \<comment> \<open>the class \<open>[\d,._\s]\<close>\<close>
  "inDigitRun c = (isDigit c \<or> c = CHR '','' \<or> c = CHR ''.'' \<or> c = CHR ''_'' \<or> isSpace c)"

definition digitMatch :: "string \<Rightarrow> string option" where
  \<comment> \<open>\<open>t.match(/\d[\d,._\s]*/)\<close>: the leftmost digit and the longest run after it\<close>
  "digitMatch t =
     (case dropWhile (\<lambda>c. \<not> isDigit c) t of
        [] \<Rightarrow> None
      | d # rest \<Rightarrow> Some (d # takeWhile inDigitRun rest))"

definition numStr :: "string \<Rightarrow> string" where
  \<comment> \<open>\<open>digitMatch[0].replace(/[^\d.]/g, '')\<close>\<close>
  "numStr m = filter (\<lambda>c. isDigit c \<or> c = CHR ''.'') m"

definition countRemainder :: "string \<Rightarrow> string \<Rightarrow> string" where
  \<comment> \<open>\<open>t.replace(digitMatch[0], '').trim().toLowerCase()\<close>\<close>
  "countRemainder t m = toLowerCase (trim (replaceFirst m [] t))"

definition parseCountInput :: "string option \<Rightarrow> cnt option" where
  "parseCountInput raw =
     (let t = normalizeText raw in
      if t = [] \<or> isSkipText (Some t) then None
      else if allZeros (filter (\<lambda>c. \<not> isCountSeparator c) t) then None
      else case digitMatch t of
        Some m \<Rightarrow>
          (case jsNumber (numStr m) of
             Fin n \<Rightarrow>
               (let remainder = countRemainder t m in
                if remainder = [] \<or> remainder = ''mushaf'' \<or> remainder = ''mushafs''
                then Some (CNum (Fin n)) else Some (CText t))
           | _ \<Rightarrow> Some (CText t))
      | None \<Rightarrow> Some (CText t))"

section \<open>Dates\<close>

text \<open>
  A valid \<open>Date\<close> is its time value, the milliseconds since the epoch; \<open>None\<close> is the
  Invalid Date. An ISO string made by \<open>toISOString\<close> is represented by the instant it
  denotes (the two determine each other). What \<open>new Date(s)\<close> makes of free text is left
  to the engine by the language, so the engine's parser is a parameter \<open>dp\<close> of the model;
  only the empty string is fixed, which no engine reads as a date.
\<close>

type_synonym instant = int

datatype error = RangeError | AmbiguousPrefix | DbFailure

definition timeClipOk :: "int \<Rightarrow> bool" where
  "timeClipOk t = (\<bar>t\<bar> \<le> 8640000000000000)"

definition newDate :: "(string \<Rightarrow> instant option) \<Rightarrow> string \<Rightarrow> instant option" where
  "newDate dp s = (if s = [] then None else dp s)"

definition toISOString :: "instant option \<Rightarrow> error + instant" where
  \<comment> \<open>throws a RangeError on the Invalid Date\<close>
  "toISOString d = (case d of None \<Rightarrow> Inl RangeError | Some t \<Rightarrow> Inr t)"

definition daysFromCivil :: "int \<Rightarrow> int \<Rightarrow> int" where
  \<comment> \<open>the day number of the first day of month \<open>mn\<close> (0 is January) of year \<open>y\<close>\<close>
  "daysFromCivil y mn =
     (let y' = (if mn < 2 then y - 1 else y);
          era = y' div 400;
          yoe = y' mod 400;
          mp = (mn + 10) mod 12;
          doy = (153 * mp + 2) div 5;
          doe = yoe * 365 + yoe div 4 - yoe div 100 + doy
      in era * 146097 + doe - 719468)"

definition makeDay :: "int \<Rightarrow> int \<Rightarrow> int \<Rightarrow> int" where
  "makeDay yr m dt = daysFromCivil (yr + m div 12) (m mod 12) + dt - 1"

definition dateUTC :: "int \<Rightarrow> int \<Rightarrow> int \<Rightarrow> int \<Rightarrow> int \<Rightarrow> instant option" where
  \<comment> \<open>\<open>new Date(Date.UTC(Y, Mo, D, hh, mm))\<close>\<close>
  "dateUTC y m d h mi =
     (let yr = (if 0 \<le> y \<and> y \<le> 99 then 1900 + y else y);
          t = makeDay yr m d * 86400000 + (h * 3600000 + mi * 60000)
      in if timeClipOk t then Some t else None)"

definition takeDigits2 :: "string \<Rightarrow> string \<times> string" where
  \<comment> \<open>\<open>\d{1,2}\<close>, greedy: the digits taken (none when it fails) and the rest\<close>
  "takeDigits2 s = (let ds = takeWhile isDigit (take 2 s) in (ds, drop (length ds) s))"

definition isDateSep :: "char \<Rightarrow> bool" where
  "isDateSep c = (c = CHR ''-'' \<or> c = CHR ''/'')"

definition timePart :: "string \<Rightarrow> nat \<times> nat" where
  \<comment> \<open>the optional group \<open>(?:[ T](\d{1,2}):(\d{2}))?\<close>; hour and minute are 0 without it\<close>
  "timePart r =
     (case r of
        [] \<Rightarrow> (0, 0)
      | c # r1 \<Rightarrow>
          if c = CHR '' '' \<or> c = CHR ''T'' then
            (let (h, r2) = takeDigits2 r1 in
             if h \<noteq> [] \<and> take 1 r2 = '':'' \<and> length (take 2 (drop 1 r2)) = 2
                \<and> list_all isDigit (take 2 (drop 1 r2))
             then (digitsValue h, digitsValue (take 2 (drop 1 r2))) else (0, 0))
          else (0, 0))"

definition dateRegex :: "string \<Rightarrow> (nat \<times> nat \<times> nat \<times> nat \<times> nat) option" where
  \<comment> \<open>\<open>s.match(/^(\d{4})[-\/](\d{1,2})[-\/](\d{1,2})(?:[ T](\d{1,2}):(\d{2}))?/)\<close>,
      the groups already read as numbers\<close>
  "dateRegex s =
     (let y = take 4 s; r1 = drop 4 s in
      if length y = 4 \<and> list_all isDigit y \<and> r1 \<noteq> [] \<and> isDateSep (hd r1) then
        (let (mo, r3) = takeDigits2 (tl r1) in
         if mo \<noteq> [] \<and> r3 \<noteq> [] \<and> isDateSep (hd r3) then
           (let (d, r5) = takeDigits2 (tl r3) in
            if d \<noteq> [] then
              Some (digitsValue y, digitsValue mo, digitsValue d, fst (timePart r5), snd (timePart r5))
            else None)
         else None)
      else None)"

definition isoOf :: "instant option \<Rightarrow> error + instant option" where
  \<comment> \<open>\<open>return d.toISOString()\<close>\<close>
  "isoOf d = (case toISOString d of Inl e \<Rightarrow> Inl e | Inr t \<Rightarrow> Inr (Some t))"

definition isNowKeyword :: "string \<Rightarrow> bool" where
  "isNowKeyword t = (t = ''now'' \<or> t = ''current'' \<or> t = ''current time'' \<or> t = ''today''
     \<or> t = ''today now'')"

definition parseFlexibleDate ::
  "(string \<Rightarrow> instant option) \<Rightarrow> instant \<Rightarrow> string \<Rightarrow> error + instant option" where
  \<comment> \<open>\<open>Inr None\<close> is the empty string the source returns when it cannot tell\<close>
  "parseFlexibleDate dp now s =
     (if s = [] then Inr None
      else if isNowKeyword (toLowerCase (trim s)) then isoOf (Some now)
      else case newDate dp s of
        Some d \<Rightarrow> isoOf (Some d)
      | None \<Rightarrow>
         (case newDate dp (replaceFirst '' '' ''T'' s) of
            Some d \<Rightarrow> isoOf (Some d)
          | None \<Rightarrow>
             (case dateRegex s of
                Some (Y, Mo, D, hh, mm) \<Rightarrow>
                  (case dateUTC (int Y) (int Mo - 1) (int D) (int hh) (int mm) of
                     Some d \<Rightarrow> isoOf (Some d)
                   | None \<Rightarrow> Inr None)
              | None \<Rightarrow> Inr None)))"

definition safeDateISO :: "(string \<Rightarrow> instant option) \<Rightarrow> instant \<Rightarrow> string \<Rightarrow> instant" where
  "safeDateISO dp now s = (case newDate dp s of None \<Rightarrow> now | Some d \<Rightarrow> d)"

definition safeDateISO_stored :: "instant \<Rightarrow> instant option \<Rightarrow> instant" where
  \<comment> \<open>\<open>safeDateISO\<close> on a stored date: \<open>undefined\<close>, or an ISO string, which every engine
      reads back as the instant it was made from\<close>
  "safeDateISO_stored now d = (case d of None \<Rightarrow> now | Some t \<Rightarrow> t)"

section \<open>The resolution order of the date parser, as specified\<close>

text \<open>
  The specification names four stages, tried in this order: the keyword, the direct
  parse, the parse with the first blank replaced by \<open>T\<close>, and the structured pattern.
  The first stage that resolves gives the result; when none does, the result is empty.
\<close>

fun firstResolved :: "'a option list \<Rightarrow> 'a option" where
  "firstResolved [] = None"
| "firstResolved (None # xs) = firstResolved xs"
| "firstResolved (Some x # xs) = Some x"

definition keywordStage :: "instant \<Rightarrow> string \<Rightarrow> instant option" where
  "keywordStage now s = (if isNowKeyword (toLowerCase (trim s)) then Some now else None)"

definition directStage :: "(string \<Rightarrow> instant option) \<Rightarrow> string \<Rightarrow> instant option" where
  "directStage dp s = newDate dp s"

definition substitutionStage :: "(string \<Rightarrow> instant option) \<Rightarrow> string \<Rightarrow> instant option" where
  "substitutionStage dp s = newDate dp (replaceFirst '' '' ''T'' s)"

definition structuredStage :: "string \<Rightarrow> instant option" where
  "structuredStage s =
     (case dateRegex s of
        None \<Rightarrow> None
      | Some (Y, Mo, D, hh, mm) \<Rightarrow> dateUTC (int Y) (int Mo - 1) (int D) (int hh) (int mm))"

definition blankToT :: "string \<Rightarrow> string" where
  \<comment> \<open>the text with its first blank, if it has one, replaced by \<open>T\<close>\<close>
  "blankToT s =
     takeWhile (\<lambda>c. c \<noteq> CHR '' '') s
     @ (case dropWhile (\<lambda>c. c \<noteq> CHR '' '') s of [] \<Rightarrow> [] | b # r \<Rightarrow> CHR ''T'' # r)"

definition resolutionOrder :: "(string \<Rightarrow> instant option) \<Rightarrow> instant \<Rightarrow> string \<Rightarrow> instant option" where
  "resolutionOrder dp now s =
     firstResolved [keywordStage now s, directStage dp s, substitutionStage dp s, structuredStage s]"

section \<open>Activity types\<close>

fun underscoreRuns :: "bool \<Rightarrow> string \<Rightarrow> string" where
  \<comment> \<open>\<open>t.replace(/\s+/g, '_')\<close>; the flag says that the run of blanks has begun\<close>
  "underscoreRuns inRun [] = []"
| "underscoreRuns inRun (c # cs) =
     (if isSpace c then (if inRun then underscoreRuns True cs else CHR ''_'' # underscoreRuns True cs)
      else c # underscoreRuns False cs)"

definition normalizeActivityType :: "string option \<Rightarrow> string" where
  "normalizeActivityType raw =
     (let t = toLowerCase (normalizeText raw) in
      if t = [] then []
      else if t = ''transit'' \<or> t = ''journey'' \<or> t = ''movement'' then ''transit''
      else if t = ''arrival'' \<or> t = ''arrive'' \<or> t = ''tiba'' then ''arrival''
      else if t = ''distribution'' \<or> t = ''agihan'' \<or> t = ''distribute'' then ''distribution''
      else if t = ''class'' \<or> t = ''lesson'' \<or> t = ''huffaz'' then ''class''
      else if t = ''delivery'' \<or> t = ''completion'' \<or> t = ''complete'' \<or> t = ''selesai''
        then ''completion''
      else if t = ''update'' \<or> t = ''status'' then ''update''
      else underscoreRuns False t)"

section \<open>Records, sessions and the world\<close>

text \<open>
  A coordinate is a JavaScript number. An attachment is the object the attachment step
  builds (\<open>type\<close>, \<open>path\<close>, \<open>fileId\<close>) with the \<open>webPath\<close> that the preview and the commit
  add. An \<open>item\<close> is the record that \<open>sendPreview\<close> stages and that the store keeps; a
  \<open>draft\<close> is \<open>s.data\<close>, every field of which may be missing.
\<close>

type_synonym coord = jsnum

record attachment =
  a_type :: string
  a_path :: "string option"
  a_fileId :: "string option"
  a_webPath :: "string option"

record item =
  i_id :: string
  i_title :: "string option"
  i_activity_type :: "string option"
  i_date :: instant
  i_count :: "cnt option"
  i_location :: "string option"
  i_lat :: "coord option"
  i_lng :: "coord option"
  i_note :: "string option"
  i_attachment :: "attachment option"

record draft =
  d_id :: "string option"
  d_title :: "string option"
  d_activity_type :: "string option"
  d_date :: "instant option"
  d_dateRaw :: "string option"
  d_count :: "cnt option"
  d_location :: "string option"
  d_lat :: "coord option"
  d_lng :: "coord option"
  d_note :: "string option"
  d_attachment :: "attachment option"

datatype mode = Create | Edit

datatype editMode = NoEditMode | Menu | Guided

datatype step = Title | Type | Date | Count | Location | Attachment | Note | Confirming | EditMenu

record session =
  s_userId :: int
  s_mode :: mode
  s_editMode :: editMode
  s_step :: step
  s_data :: draft
  s_pending :: "item option"

datatype menuAction = MenuEdit | MenuDelete

text \<open>
  What the bot sends. A reply whose wording a property below depends on is \<open>Say\<close> with
  the literal text; a prompt for a step, the preview, the menus, the list page and the
  longer notices are constructors of their own, their wording left out.
\<close>

datatype out =
    Say string
  | AskStep step
  | ShowPreview item
  | ShowMainMenu
  | ShowHelp
  | ShowList
  | SlashTip
  | LocationResolved string
  | LocationAsText
  | Saved mode item
  | Answer string
  | AnswerBusy
  | ClearButtons
  | CloseList
  | Announce item string

record world =
  sessions :: "int \<Rightarrow> session option"
  pendingMenuActionByChatId :: "int \<Rightarrow> menuAction option"
  activities :: "item list"
  outbox :: "(int \<times> out) list"

text \<open>
  The configuration is fixed when the bot starts: the allow-list (an entry that is
  not a number is \<open>None\<close>, the NaN that equals no id), the absolute path of the uploads
  directory, \<open>path.resolve(__dirname, 'uploads')\<close>, whether a database and an announce
  channel are configured, and the engine's \<open>Date\<close> parser and \<open>Number\<close> conversion.
  The \<open>env\<close> of an event holds what the outside answers while the event is handled: the
  clock, the geocoder, the download, \<open>Math.random\<close>, the database and the upload.
  Every event is handled in one piece and the transport's sends succeed.
\<close>

record config =
  ALLOWED :: "int option list"
  UPLOADS_DIR :: string
  dbOn :: bool
  announceOn :: bool
  dateParse :: "string \<Rightarrow> instant option"
  numberOf :: "string \<Rightarrow> jsnum"

record env =
  e_now :: instant
  e_geo :: "(coord \<times> coord \<times> string) option"
  e_downloadOk :: bool
  e_random :: string
  e_dbThrows :: bool
  e_dbNewId :: "string option"
  e_uploadUrl :: "string option"

record message =
  m_chat :: int
  m_from :: int
  m_text :: "string option"
  m_caption :: "string option"
  m_location :: "(coord \<times> coord) option"
  m_photo :: "string list"
  m_document :: "(string \<times> string option) option"
  m_edit_date :: bool


definition truthy :: "string option \<Rightarrow> bool" where
  "truthy s = (s \<noteq> None \<and> s \<noteq> Some [])"

definition orStr :: "string option \<Rightarrow> string option \<Rightarrow> string option" where
  \<comment> \<open>\<open>a || b\<close> on strings\<close>
  "orStr a b = (if truthy a then a else b)"

definition send :: "int \<Rightarrow> out list \<Rightarrow> world \<Rightarrow> world" where
  "send chatId os w = w\<lparr>outbox := outbox w @ map (Pair chatId) os\<rparr>"

definition emptyDraft :: draft where
  "emptyDraft = \<lparr>d_id = None, d_title = None, d_activity_type = None, d_date = None,
     d_dateRaw = None, d_count = None, d_location = None, d_lat = None, d_lng = None,
     d_note = None, d_attachment = None\<rparr>"

definition startSession :: "int \<Rightarrow> int \<Rightarrow> mode \<Rightarrow> world \<Rightarrow> world" where
  "startSession chatId userId md w =
     w\<lparr>sessions := (sessions w)(chatId \<mapsto>
        \<lparr>s_userId = userId, s_mode = md, s_editMode = NoEditMode, s_step = Title,
         s_data = emptyDraft, s_pending = None\<rparr>)\<rparr>"

definition endSession :: "int \<Rightarrow> world \<Rightarrow> world" where
  "endSession chatId w = w\<lparr>sessions := (sessions w)(chatId := None)\<rparr>"

definition isEditMenuMode :: "session \<Rightarrow> bool" where
  "isEditMenuMode s = (s_mode s = Edit \<and> s_editMode s = Menu)"

definition isAllowed :: "int option list \<Rightarrow> int \<Rightarrow> bool" where
  "isAllowed allowed userId = (if length allowed = 0 then True else Some userId \<in> set allowed)"

definition makeId :: "env \<Rightarrow> string" where
  "makeId en = ''a-'' @ e_random en"

section \<open>Identifiers and their prefixes\<close>

definition isUuidLike :: "string option \<Rightarrow> bool" where
  "isUuidLike s =
     (let t = normalizeText s in
      length t = 36 \<and>
      list_all isHexDigit (take 8 t) \<and> t ! 8 = CHR ''-'' \<and>
      list_all isHexDigit (take 4 (drop 9 t)) \<and> t ! 13 = CHR ''-'' \<and>
      list_all isHexDigit (take 4 (drop 14 t)) \<and> t ! 18 = CHR ''-'' \<and>
      list_all isHexDigit (take 4 (drop 19 t)) \<and> t ! 23 = CHR ''-'' \<and>
      list_all isHexDigit (drop 24 t))"

definition ilikePrefix :: "string \<Rightarrow> string \<Rightarrow> bool" where
  \<comment> \<open>\<open>id::text ILIKE prefix || '%'\<close>, for a prefix of hexadecimal digits\<close>
  "ilikePrefix prefix idText = startsWith (toLowerCase idText) (toLowerCase prefix)"

definition prefixQuery :: "item list \<Rightarrow> string \<Rightarrow> item list" where
  \<comment> \<open>the rows whose id begins with the prefix, newest first, two at most\<close>
  "prefixQuery rows prefix =
     take 2 (rev (sort_key i_date (filter (\<lambda>r. ilikePrefix prefix (i_id r)) rows)))"

definition resolveDbIdFromPrefix ::
  "bool \<Rightarrow> bool \<Rightarrow> item list \<Rightarrow> string option \<Rightarrow> error + string" where
  \<comment> \<open>\<open>pool\<close>: the database is configured; \<open>dbThrows\<close>: the query fails\<close>
  "resolveDbIdFromPrefix pool dbThrows rows idOrPrefix =
     (let raw = normalizeText idOrPrefix in
      if raw = [] then Inr []
      else if isUuidLike (Some raw) then Inr raw
      else if \<not> pool then Inr raw
      else
        (let prefix = take 32 (filter isHexDigit raw) in
         if length prefix < 6 then Inr raw
         else if dbThrows then Inl DbFailure
         else
           (let found = prefixQuery rows prefix in
            if length found = 1 then Inr (i_id (hd found))
            else if length found > 1 then Inl AmbiguousPrefix
            else Inr [])))"

section \<open>Preview, skip and back\<close>

definition putSession :: "int \<Rightarrow> session \<Rightarrow> world \<Rightarrow> world" where
  "putSession chatId s w = w\<lparr>sessions := (sessions w)(chatId \<mapsto> s)\<rparr>"

definition applyStep :: "int \<Rightarrow> session \<times> out list \<Rightarrow> world \<Rightarrow> world" where
  \<comment> \<open>the session object was changed in place and the replies were sent\<close>
  "applyStep chatId r w = send chatId (snd r) (putSession chatId (fst r) w)"

definition setData :: "(draft \<Rightarrow> draft) \<Rightarrow> session \<Rightarrow> session" where
  "setData f s = s\<lparr>s_data := f (s_data s)\<rparr>"

definition basename :: "string \<Rightarrow> string" where
  "basename p =
     rev (takeWhile (\<lambda>c. c \<noteq> CHR ''/'') (dropWhile (\<lambda>c. c = CHR ''/'') (rev p)))"

definition uploadsWebPath :: "string \<Rightarrow> string" where
  \<comment> \<open>\<open>path.join('telegram-bot', 'uploads', path.basename(p))\<close>\<close>
  "uploadsWebPath p = ''telegram-bot/uploads/'' @ basename p"

definition withWebPath :: "attachment \<Rightarrow> attachment" where
  "withWebPath a = (if truthy (a_path a)
     then a\<lparr>a_webPath := Some (uploadsWebPath (case a_path a of Some p \<Rightarrow> p | None \<Rightarrow> []))\<rparr>
     else a)"

definition promptForStep :: "session \<Rightarrow> out list" where
  \<comment> \<open>no branch of \<open>promptForStep\<close> is for the step \<open>confirming\<close>\<close>
  "promptForStep s = (if s_step s = Confirming then [] else [AskStep (s_step s)])"

definition sendPreview :: "env \<Rightarrow> session \<Rightarrow> session \<times> out list" where
  \<comment> \<open>the staged item shares its attachment object with the draft, so the \<open>webPath\<close> set
      here shows in both\<close>
  "sendPreview en s =
     (let d = s_data s;
          att = map_option withWebPath (d_attachment d);
          it = \<lparr>i_id = (case d_id d of Some i \<Rightarrow> if i \<noteq> [] then i else makeId en
                                    | None \<Rightarrow> makeId en),
                i_title = d_title d,
                i_activity_type = d_activity_type d,
                i_date = safeDateISO_stored (e_now en) (d_date d),
                i_count = d_count d,
                i_location = d_location d,
                i_lat = d_lat d,
                i_lng = d_lng d,
                i_note = d_note d,
                i_attachment = att\<rparr>
      in (s\<lparr>s_data := d\<lparr>d_attachment := att\<rparr>, s_pending := Some it, s_step := Confirming\<rparr>,
          [ShowPreview it]))"

definition handleSkip :: "config \<Rightarrow> env \<Rightarrow> session \<Rightarrow> session \<times> out list" where
  "handleSkip cfg en s =
     (if isEditMenuMode s then (s\<lparr>s_step := EditMenu\<rparr>, [AskStep EditMenu])
      else case s_step s of
        Type \<Rightarrow>
          ((setData (\<lambda>d. d\<lparr>d_activity_type := orStr (d_activity_type d) (Some [])\<rparr>) s)
             \<lparr>s_step := Date\<rparr>, [AskStep Date])
      | Date \<Rightarrow>
          ((setData (\<lambda>d. d\<lparr>d_date := Some (safeDateISO (dateParse cfg) (e_now en) [])\<rparr>) s)
             \<lparr>s_step := Count\<rparr>, [AskStep Count])
      | Count \<Rightarrow>
          ((setData (\<lambda>d. d\<lparr>d_count := None\<rparr>) s)\<lparr>s_step := Location\<rparr>, [AskStep Location])
      | Location \<Rightarrow>
          ((setData (\<lambda>d. d\<lparr>d_location := orStr (d_location d) (Some [])\<rparr>) s)
             \<lparr>s_step := Attachment\<rparr>,
           [Say ''Skipping location. Attach a photo/doc or type /skip''])
      | Attachment \<Rightarrow>
          ((setData (\<lambda>d. d\<lparr>d_attachment := None\<rparr>) s)\<lparr>s_step := Note\<rparr>,
           [Say ''Skipping attachment. Any note? (or /skip)''])
      | Note \<Rightarrow> sendPreview en (setData (\<lambda>d. d\<lparr>d_note := Some []\<rparr>) s)
      | _ \<Rightarrow> (s, []))"

definition on_skip :: "config \<Rightarrow> env \<Rightarrow> world \<Rightarrow> message \<Rightarrow> world" where
  \<comment> \<open>\<open>bot.onText(/\/skip(?:@\w+)?/i, ...)\<close>\<close>
  "on_skip cfg en w msg =
     (case sessions w (m_chat msg) of
        None \<Rightarrow> w
      | Some s \<Rightarrow> applyStep (m_chat msg) (handleSkip cfg en s) w)"

definition beginGuidedFlow :: "config \<Rightarrow> world \<Rightarrow> int \<Rightarrow> int \<Rightarrow> world" where
  "beginGuidedFlow cfg w chatId fromId =
     (if \<not> isAllowed (ALLOWED cfg) fromId
      then send chatId [Say ''You are not authorized to use guided input.''] w
      else send chatId [AskStep Title] (startSession chatId fromId Create w))"

definition stepPrev :: "step \<Rightarrow> step option" where
  \<comment> \<open>\<open>None\<close> is the empty string that the source returns for a step outside the table\<close>
  "stepPrev st =
     (case st of
        Confirming \<Rightarrow> Some Note
      | Note \<Rightarrow> Some Attachment
      | Attachment \<Rightarrow> Some Location
      | Location \<Rightarrow> Some Count
      | Count \<Rightarrow> Some Date
      | Date \<Rightarrow> Some Type
      | Type \<Rightarrow> Some Title
      | _ \<Rightarrow> None)"

definition backStep :: "session \<Rightarrow> session \<times> out list" where
  \<comment> \<open>the body of the back handler, once the session is found\<close>
  "backStep s =
     (if isEditMenuMode s \<and> s_step s \<noteq> EditMenu
      then (s\<lparr>s_step := EditMenu\<rparr>, [AskStep EditMenu])
      else case stepPrev (s_step s) of
        None \<Rightarrow> (s, [Say ''Already at the first step.''])
      | Some prev \<Rightarrow> (s\<lparr>s_step := prev\<rparr>, promptForStep (s\<lparr>s_step := prev\<rparr>)))"

definition on_back :: "world \<Rightarrow> message \<Rightarrow> world" where
  \<comment> \<open>\<open>bot.onText(/\/back(?:@\w+)?/i, ...)\<close>\<close>
  "on_back w msg =
     (case sessions w (m_chat msg) of
        None \<Rightarrow> w
      | Some s \<Rightarrow> applyStep (m_chat msg) (backStep s) w)"

section \<open>Starting an edit, deleting, quick add\<close>

datatype failure = EditFailed | DeleteFailed | AddFailed

definition errorMessage :: "error \<Rightarrow> string" where
  \<comment> \<open>the message of the error thrown; the database's own wording is not known\<close>
  "errorMessage e =
     (case e of
        AmbiguousPrefix \<Rightarrow> ''Multiple activities match that ID prefix. Please copy the full ID from /list.''
      | DbFailure \<Rightarrow> ''database error''
      | RangeError \<Rightarrow> ''Invalid time value'')"

definition failureText :: "failure \<Rightarrow> error \<Rightarrow> string" where
  "failureText f e =
     (case f of EditFailed \<Rightarrow> ''Edit failed: '' | DeleteFailed \<Rightarrow> ''Delete failed: ''
      | AddFailed \<Rightarrow> ''Add failed: '') @ errorMessage e"

definition isHttpUrl :: "string option \<Rightarrow> bool" where
  \<comment> \<open>\<open>/^https?:\/\//i\<close>\<close>
  "isHttpUrl u = (case u of None \<Rightarrow> False
     | Some t \<Rightarrow> startsWith (toLowerCase t) ''http://'' \<or> startsWith (toLowerCase t) ''https://'')"

definition seedAttachment :: "bool \<Rightarrow> attachment option \<Rightarrow> attachment option" where
  \<comment> \<open>a database row keeps of an attachment its type and, when public, its URL; the
      file keeps the object\<close>
  "seedAttachment db a =
     (if db then
        (case a of None \<Rightarrow> None
         | Some x \<Rightarrow>
            if \<not> isHttpUrl (a_webPath x) \<and> a_type x = [] then None
            else Some \<lparr>a_type = (if a_type x = [] then ''photo'' else a_type x),
                       a_path = None, a_fileId = None,
                       a_webPath = (if isHttpUrl (a_webPath x) then a_webPath x else Some [])\<rparr>)
      else a)"

definition seedDraft :: "bool \<Rightarrow> item \<Rightarrow> draft" where
  \<comment> \<open>the draft of an edit session, seeded from the stored record. The activity type comes
      back only from the \<open>raw\<close> column of a database row.\<close>
  "seedDraft db existing =
     \<lparr>d_id = Some (i_id existing),
      d_title = orStr (i_title existing) (Some []),
      d_activity_type = (if db \<and> truthy (i_activity_type existing)
                         then i_activity_type existing else None),
      d_date = Some (i_date existing),
      d_dateRaw = None,
      d_count = i_count existing,
      d_location = orStr (i_location existing) (Some []),
      d_lat = i_lat existing,
      d_lng = i_lng existing,
      d_note = orStr (i_note existing) (Some []),
      d_attachment = seedAttachment db (i_attachment existing)\<rparr>"

definition beginEditFlow :: "config \<Rightarrow> env \<Rightarrow> world \<Rightarrow> int \<Rightarrow> int \<Rightarrow> string option \<Rightarrow> world" where
  "beginEditFlow cfg en w chatId fromId ident =
     (if \<not> isAllowed (ALLOWED cfg) fromId then send chatId [Say ''Not authorized''] w
      else if sessions w chatId \<noteq> None
        then send chatId [Say ''You are already in a session. Type /cancel to stop it first.''] w
      else
        (let activityId = normalizeText ident in
         if activityId = [] then send chatId [Say ''Usage: /edit <id> (get the id from /list)''] w
         else
           case (if dbOn cfg \<and> \<not> isUuidLike (Some activityId)
                 then resolveDbIdFromPrefix (dbOn cfg) (e_dbThrows en) (activities w) (Some activityId)
                 else Inr activityId) of
             Inl e \<Rightarrow> send chatId [Say (errorMessage e)] w
           | Inr resolved \<Rightarrow>
               if resolved = [] then send chatId [Say (''Not found: '' @ activityId)] w
               else if dbOn cfg \<and> e_dbThrows en
                 then send chatId [Say (failureText EditFailed DbFailure)] w
               else
                 (case find (\<lambda>a. i_id a = resolved) (activities w) of
                    None \<Rightarrow> send chatId [Say (''Not found: '' @ resolved)] w
                  | Some existing \<Rightarrow>
                      applyStep chatId
                        (\<lparr>s_userId = fromId, s_mode = Edit, s_editMode = Menu, s_step = EditMenu,
                          s_data = seedDraft (dbOn cfg) existing, s_pending = None\<rparr>,
                         [AskStep EditMenu]) w)))"

definition handleDeleteById :: "config \<Rightarrow> env \<Rightarrow> world \<Rightarrow> int \<Rightarrow> int \<Rightarrow> string option \<Rightarrow> world" where
  "handleDeleteById cfg en w chatId userId ident =
     (if \<not> isAllowed (ALLOWED cfg) userId then send chatId [Say ''Not authorized''] w
      else if sessions w chatId \<noteq> None
        then send chatId [Say ''You are in a session. Type /cancel first.''] w
      else
        (let normalizedId = normalizeText ident in
         if normalizedId = []
           then send chatId [Say ''Usage: delete needs an id (get the id from /list)''] w
         else if dbOn cfg then
           (case (if \<not> isUuidLike (Some normalizedId)
                  then resolveDbIdFromPrefix (dbOn cfg) (e_dbThrows en) (activities w) (Some normalizedId)
                  else Inr normalizedId) of
              Inl e \<Rightarrow> send chatId [Say (failureText DeleteFailed e)] w
            | Inr resolved \<Rightarrow>
                if resolved = [] then send chatId [Say (''Not found: '' @ normalizedId)] w
                else if e_dbThrows en then send chatId [Say (failureText DeleteFailed DbFailure)] w
                else if list_ex (\<lambda>a. i_id a = resolved) (activities w)
                  then send chatId [Say (''Deleted: '' @ resolved @ '' (Neon)'')]
                         (w\<lparr>activities := filter (\<lambda>a. i_id a \<noteq> resolved) (activities w)\<rparr>)
                else send chatId [Say (''Not found: '' @ resolved)] w)
         else
           (let next = filter (\<lambda>a. i_id a \<noteq> normalizedId) (activities w) in
            if length next = length (activities w)
              then send chatId [Say (''Not found: '' @ normalizedId)] w
            else send chatId [Say (''Deleted: '' @ normalizedId @ '' (local file)'')]
                   (w\<lparr>activities := next\<rparr>))))"

definition putFirst :: "string \<Rightarrow> item \<Rightarrow> item list \<Rightarrow> item list" where
  \<comment> \<open>\<open>idx = arr.findIndex(...); if(idx >= 0) arr[idx] = item; else arr.push(item)\<close>\<close>
  "putFirst k it arr =
     (if list_ex (\<lambda>a. i_id a = k) arr
      then takeWhile (\<lambda>a. i_id a \<noteq> k) arr @ [it] @ tl (dropWhile (\<lambda>a. i_id a \<noteq> k) arr)
      else arr @ [it])"

definition persist :: "config \<Rightarrow> env \<Rightarrow> mode \<Rightarrow> item \<Rightarrow> item list \<Rightarrow> error + item \<times> item list" where
  \<comment> \<open>the write of a confirmed item: an update or an insert in the database, or the file
      rewritten in date order. The item comes back with the id the database gave it.\<close>
  "persist cfg en md it arr =
     (if dbOn cfg then
        (if e_dbThrows en then Inl DbFailure
         else if md = Edit then Inr (it, map (\<lambda>a. if i_id a = i_id it then it else a) arr)
         else
           (let it' = (case e_dbNewId en of Some n \<Rightarrow> it\<lparr>i_id := n\<rparr> | None \<Rightarrow> it)
            in Inr (it', arr @ [it'])))
      else
        Inr (it, sort_key i_date (if md = Edit then putFirst (i_id it) it arr else arr @ [it])))"

fun splitOn :: "char \<Rightarrow> string \<Rightarrow> string list" where
  "splitOn c [] = [[]]"
| "splitOn c (x # xs) =
     (if x = c then [] # splitOn c xs
      else case splitOn c xs of [] \<Rightarrow> [[x]] | p # ps \<Rightarrow> (x # p) # ps)"

definition isLatLngSep :: "char \<Rightarrow> bool" where
  "isLatLngSep c = (c = CHR '' '' \<or> c = CHR '','' \<or> c = CHR '';'')"

fun splitRuns :: "bool \<Rightarrow> string \<Rightarrow> string list" where
  \<comment> \<open>\<open>latlng.split(/[ ,;]+/)\<close>; the flag says that a run of separators has begun\<close>
  "splitRuns inRun [] = [[]]"
| "splitRuns inRun (x # xs) =
     (if isLatLngSep x then (if inRun then splitRuns True xs else [] # splitRuns True xs)
      else case splitRuns False xs of [] \<Rightarrow> [[x]] | p # ps \<Rightarrow> (x # p) # ps)"

definition part :: "nat \<Rightarrow> string list \<Rightarrow> string option" where
  "part k ps = (if k < length ps then Some (ps ! k) else None)"

definition quickAddItem :: "config \<Rightarrow> env \<Rightarrow> string \<Rightarrow> item" where
  "quickAddItem cfg en arg =
     (let parts = map trim (splitOn CHR ''|'' (trim arg));
          countStr = part 2 parts;
          latlng = part 4 parts;
          m = (case latlng of Some l \<Rightarrow> if l \<noteq> [] then map (numberOf cfg) (splitRuns False l) else []
               | None \<Rightarrow> [])
      in \<lparr>i_id = makeId en,
          i_title = orStr (part 0 parts) (Some ''Activity''),
          i_activity_type = None,
          i_date = safeDateISO (dateParse cfg) (e_now en)
                     (case part 1 parts of Some d \<Rightarrow> d | None \<Rightarrow> []),
          i_count = (case countStr of
                       Some c \<Rightarrow> if c = [] then None
                                  else (case numberOf cfg c of NaN \<Rightarrow> Some (CText c) | n \<Rightarrow> Some (CNum n))
                     | None \<Rightarrow> None),
          i_location = orStr (part 3 parts) (Some []),
          i_lat = (if 2 \<le> length m then Some (m ! 0) else None),
          i_lng = (if 2 \<le> length m then Some (m ! 1) else None),
          i_note = orStr (part 5 parts) (Some []),
          i_attachment = None\<rparr>)"

definition on_add :: "config \<Rightarrow> env \<Rightarrow> world \<Rightarrow> message \<Rightarrow> string \<Rightarrow> world" where
  \<comment> \<open>\<open>bot.onText(/\/add(\s+[\s\S]+)/i, ...)\<close> with its captured argument\<close>
  "on_add cfg en w msg arg =
     (if \<not> isAllowed (ALLOWED cfg) (m_from msg) then send (m_chat msg) [Say ''Not authorized''] w
      else case persist cfg en Create (quickAddItem cfg en arg) (activities w) of
        Inl e \<Rightarrow> send (m_chat msg) [Say (failureText AddFailed e)] w
      | Inr (it, arr) \<Rightarrow>
          send (m_chat msg)
            [Say (''Added: '' @ (case i_title (quickAddItem cfg en arg) of Some t \<Rightarrow> t | None \<Rightarrow> []))]
            (w\<lparr>activities := arr\<rparr>))"

definition on_new :: "config \<Rightarrow> world \<Rightarrow> message \<Rightarrow> world" where
  "on_new cfg w msg = beginGuidedFlow cfg w (m_chat msg) (m_from msg)"

definition on_edit :: "config \<Rightarrow> env \<Rightarrow> world \<Rightarrow> message \<Rightarrow> string \<Rightarrow> world" where
  \<comment> \<open>\<open>bot.onText(/\/edit\s+([\s\S]+)/i, ...)\<close> with its captured argument\<close>
  "on_edit cfg en w msg arg = beginEditFlow cfg en w (m_chat msg) (m_from msg) (Some arg)"

definition on_delete :: "config \<Rightarrow> env \<Rightarrow> world \<Rightarrow> message \<Rightarrow> string \<Rightarrow> world" where
  "on_delete cfg en w msg arg = handleDeleteById cfg en w (m_chat msg) (m_from msg) (Some arg)"

definition on_help :: "world \<Rightarrow> message \<Rightarrow> world" where
  "on_help w msg = send (m_chat msg) [ShowHelp] w"

definition on_list :: "world \<Rightarrow> message \<Rightarrow> world" where
  \<comment> \<open>the list page is read from the store and sent; nothing is written\<close>
  "on_list w msg = send (m_chat msg) [ShowList] w"

definition cancelCommand :: "int \<Rightarrow> world \<Rightarrow> world" where
  "cancelCommand chatId w =
     send chatId [Say ''Canceled.'']
       (endSession chatId
          (w\<lparr>pendingMenuActionByChatId := (pendingMenuActionByChatId w)(chatId := None)\<rparr>))"

definition on_cancel :: "world \<Rightarrow> message \<Rightarrow> world" where
  "on_cancel w msg = cancelCommand (m_chat msg) w"

section \<open>The message handler\<close>

definition leave :: "session \<Rightarrow> step \<Rightarrow> out \<Rightarrow> session \<times> out list" where
  \<comment> \<open>how every branch of a step ends: back to the field menu in menu mode, else on to
      the next step with the given reply\<close>
  "leave s nxt reply =
     (if isEditMenuMode s then (s\<lparr>s_step := EditMenu\<rparr>, [AskStep EditMenu])
      else (s\<lparr>s_step := nxt\<rparr>, [reply]))"

definition titleStep :: "message \<Rightarrow> session \<Rightarrow> session \<times> out list" where
  "titleStep msg s =
     leave
       (if isSkipText (m_text msg) \<and> s_mode s = Edit then s
        else setData (\<lambda>d. d\<lparr>d_title :=
               orStr (m_text msg) (orStr (m_caption msg) (orStr (d_title d) (Some ''Untitled'')))\<rparr>) s)
       Type (AskStep Type)"

definition typeStep :: "message \<Rightarrow> session \<Rightarrow> session \<times> out list" where
  "typeStep msg s =
     (let raw = normalizeText (m_text msg) in
      leave
        (if isSkipText (Some raw)
         then (if s_mode s \<noteq> Edit then setData (\<lambda>d. d\<lparr>d_activity_type := Some []\<rparr>) s else s)
         else setData (\<lambda>d. d\<lparr>d_activity_type := Some (normalizeActivityType (Some raw))\<rparr>) s)
        Date (AskStep Date))"

definition dateStep :: "config \<Rightarrow> env \<Rightarrow> message \<Rightarrow> session \<Rightarrow> error + session \<times> out list" where
  "dateStep cfg en msg s =
     (let raw = normalizeText (m_text msg);
          nowISO = safeDateISO (dateParse cfg) (e_now en) [] in
      if isSkipText (Some raw) then
        Inr (leave (if s_mode s \<noteq> Edit then setData (\<lambda>d. d\<lparr>d_date := Some nowISO\<rparr>) s else s)
               Count (AskStep Count))
      else if raw = [] then
        Inr (leave (setData (\<lambda>d. d\<lparr>d_date := Some nowISO\<rparr>) s) Count (AskStep Count))
      else
        case parseFlexibleDate (dateParse cfg) (e_now en) raw of
          Inl e \<Rightarrow> Inl e
        | Inr (Some parsed) \<Rightarrow>
            Inr (leave (setData (\<lambda>d. d\<lparr>d_date := Some parsed\<rparr>) s) Count (AskStep Count))
        | Inr None \<Rightarrow>
            Inr (leave
                  (setData (\<lambda>d. d\<lparr>d_date := Some (safeDateISO (dateParse cfg) (e_now en) raw),
                                  d_dateRaw := Some raw\<rparr>) s)
                  Count (AskStep Count)))"

definition countStep :: "message \<Rightarrow> session \<Rightarrow> session \<times> out list" where
  "countStep msg s =
     leave
       (if isSkipText (m_text msg)
        then (if s_mode s \<noteq> Edit then setData (\<lambda>d. d\<lparr>d_count := None\<rparr>) s else s)
        else setData (\<lambda>d. d\<lparr>d_count := parseCountInput (m_text msg)\<rparr>) s)
       Location (AskStep Location)"

definition geocodeLocation :: "env \<Rightarrow> string \<Rightarrow> (coord \<times> coord \<times> string) option" where
  \<comment> \<open>no request is made for an empty query\<close>
  "geocodeLocation en query = (if query = [] then None else e_geo en)"

definition locationStep :: "env \<Rightarrow> message \<Rightarrow> session \<Rightarrow> session \<times> out list" where
  "locationStep en msg s =
     (if isSkipText (m_text msg) then
        leave (if s_mode s \<noteq> Edit then setData (\<lambda>d. d\<lparr>d_location := Some []\<rparr>) s else s)
          Attachment (AskStep Attachment)
      else case m_location msg of
        Some (la, lo) \<Rightarrow>
          leave (setData (\<lambda>d. d\<lparr>d_lat := Some la, d_lng := Some lo,
                                d_location := Some ''Shared location''\<rparr>) s)
            Attachment
            (Say ''Location set from your shared location. Attach a photo/doc or type /skip'')
      | None \<Rightarrow>
          if truthy (m_text msg) \<and> m_text msg \<noteq> Some ''Send my location''
             \<and> m_text msg \<noteq> Some ''Type location'' then
            (let typed = normalizeText (m_text msg) in
             case geocodeLocation en typed of
               Some (la, lo, display_name) \<Rightarrow>
                 leave (setData (\<lambda>d. d\<lparr>d_lat := Some la, d_lng := Some lo,
                                       d_location := Some display_name\<rparr>) s)
                   Attachment (LocationResolved display_name)
             | None \<Rightarrow>
                 leave (setData (\<lambda>d. d\<lparr>d_location := Some typed, d_lat := None, d_lng := None\<rparr>) s)
                   Attachment LocationAsText)
          else (s, [Say ''Tap Send my location or type location name'']))"

definition attachmentStep :: "config \<Rightarrow> env \<Rightarrow> message \<Rightarrow> session \<Rightarrow> session \<times> out list" where
  "attachmentStep cfg en msg s =
     (if m_photo msg \<noteq> [] then
        (let fileId = last (m_photo msg);
             filename = UPLOADS_DIR cfg @ ''/'' @ fileId @ ''.jpg'' in
         leave (setData (\<lambda>d. d\<lparr>d_attachment := Some
                  \<lparr>a_type = ''photo'',
                   a_path = (if e_downloadOk en then Some filename else None),
                   a_fileId = Some fileId, a_webPath = None\<rparr>\<rparr>) s)
           Note
           (Say ''Photo saved. Add an optional note (or type /skip). Tip: use full-resolution images for best results.''))
      else case m_document msg of
        Some (fileId, file_name) \<Rightarrow>
          (let filename = UPLOADS_DIR cfg @ ''/'' @ (if truthy file_name
                            then (case file_name of Some n \<Rightarrow> n | None \<Rightarrow> []) else fileId) in
           leave (setData (\<lambda>d. d\<lparr>d_attachment := Some
                    \<lparr>a_type = ''doc'',
                     a_path = (if e_downloadOk en then Some filename else None),
                     a_fileId = Some fileId, a_webPath = None\<rparr>\<rparr>) s)
             Note (Say ''Document saved. Any note? (or /skip)''))
      | None \<Rightarrow>
          if truthy (m_text msg) \<and> isSkipText (m_text msg) then
            leave (if s_mode s \<noteq> Edit then setData (\<lambda>d. d\<lparr>d_attachment := None\<rparr>) s else s)
              Note (Say ''Skipping attachment. Any note? (or /skip)'')
          else (s, [Say ''Send a photo/document or type /skip'']))"

definition noteStep :: "env \<Rightarrow> message \<Rightarrow> session \<Rightarrow> session \<times> out list" where
  "noteStep en msg s =
     (let s1 =
        (if truthy (m_text msg) \<and> isSkipText (m_text msg)
         then (if s_mode s \<noteq> Edit then setData (\<lambda>d. d\<lparr>d_note := Some []\<rparr>) s else s)
         else case m_text msg of
           Some t \<Rightarrow> setData (\<lambda>d. d\<lparr>d_note := Some t\<rparr>) s
         | None \<Rightarrow>
            (case m_caption msg of
               Some c \<Rightarrow> setData (\<lambda>d. d\<lparr>d_note := Some c\<rparr>) s
             | None \<Rightarrow> setData (\<lambda>d. d\<lparr>d_note := orStr (d_note d) (Some [])\<rparr>) s))
      in if isEditMenuMode s1 then (s1\<lparr>s_step := EditMenu\<rparr>, [AskStep EditMenu])
         else sendPreview en s1)"

definition stepInput :: "config \<Rightarrow> env \<Rightarrow> message \<Rightarrow> session \<Rightarrow> error + session \<times> out list" where
  \<comment> \<open>the chain of \<open>if(s.step === ...)\<close>; no branch is for \<open>confirming\<close> or \<open>edit_menu\<close>\<close>
  "stepInput cfg en msg s =
     (case s_step s of
        Title \<Rightarrow> Inr (titleStep msg s)
      | Type \<Rightarrow> Inr (typeStep msg s)
      | Date \<Rightarrow> dateStep cfg en msg s
      | Count \<Rightarrow> Inr (countStep msg s)
      | Location \<Rightarrow> Inr (locationStep en msg s)
      | Attachment \<Rightarrow> Inr (attachmentStep cfg en msg s)
      | Note \<Rightarrow> Inr (noteStep en msg s)
      | Confirming \<Rightarrow> Inr (s, [])
      | EditMenu \<Rightarrow> Inr (s, []))"

definition commandWords :: "string list" where
  "commandWords = [''start'', ''help'', ''menu'', ''new'', ''cancel'', ''skip'', ''back'',
     ''edit'', ''delete'', ''add'', ''list'']"

definition isCommandText :: "string option \<Rightarrow> bool" where
  \<comment> \<open>\<open>msg.text && /^\/(start|help|...|list)\b/i.test(msg.text)\<close>\<close>
  "isCommandText text =
     (case text of
        None \<Rightarrow> False
      | Some t \<Rightarrow>
          list_ex (\<lambda>w. startsWith (toLowerCase t) (CHR ''/'' # w)
                        \<and> (length t = Suc (length w) \<or> \<not> isWordChar (t ! Suc (length w))))
            commandWords)"

definition parseBackslash :: "string \<Rightarrow> (string \<times> string) option" where
  \<comment> \<open>\<open>('/' + text.slice(1)).match(/^\/([a-zA-Z0-9_]+)(?:\s+([\s\S]+))?$/)\<close>: the command
      in lower case and its argument, the empty string when there is none\<close>
  "parseBackslash text =
     (let body = drop 1 text; w = takeWhile isWordChar body; r = dropWhile isWordChar body in
      if w = [] then None
      else if r = [] then Some (toLowerCase w, [])
      else if isSpace (hd r) then
        (let ws = takeWhile isSpace r; rest = dropWhile isSpace r in
         if rest \<noteq> [] then Some (toLowerCase w, rest)
         else if 2 \<le> length ws then Some (toLowerCase w, [last ws])
         else None)
      else None)"

definition backslashCommand :: "config \<Rightarrow> env \<Rightarrow> world \<Rightarrow> message \<Rightarrow> string \<Rightarrow> world" where
  "backslashCommand cfg en w msg text =
     (let chatId = m_chat msg;
          cmd = (case parseBackslash text of Some (c, a) \<Rightarrow> c | None \<Rightarrow> []);
          arg = (case parseBackslash text of Some (c, a) \<Rightarrow> a | None \<Rightarrow> []) in
      if cmd = ''start'' \<or> cmd = ''menu'' then send chatId [ShowMainMenu] w
      else if cmd = ''help'' then send chatId [ShowHelp] w
      else if cmd = ''new'' then beginGuidedFlow cfg w chatId (m_from msg)
      else if cmd = ''list'' then send chatId [ShowList] w
      else if cmd = ''cancel'' then cancelCommand chatId w
      else if cmd = ''skip'' then
        (case sessions w chatId of
           None \<Rightarrow> send chatId [Say ''No active session.''] w
         | Some s \<Rightarrow> applyStep chatId (handleSkip cfg en s) w)
      else if cmd = ''back'' then
        (case sessions w chatId of
           None \<Rightarrow> send chatId [Say ''No active session.''] w
         | Some s \<Rightarrow> applyStep chatId (backStep s) w)
      else if cmd = ''edit'' then beginEditFlow cfg en w chatId (m_from msg) (Some arg)
      else if cmd = ''delete'' then handleDeleteById cfg en w chatId (m_from msg) (Some arg)
      else send chatId [SlashTip] w)"

definition on_message :: "config \<Rightarrow> env \<Rightarrow> world \<Rightarrow> message \<Rightarrow> world" where
  \<comment> \<open>\<open>bot.on('message', ...)\<close>\<close>
  "on_message cfg en w msg =
     (let chatId = m_chat msg in
      if m_edit_date msg then w
      else if (case m_text msg of Some t \<Rightarrow> startsWith t [CHR 0x5C] | None \<Rightarrow> False) then
        backslashCommand cfg en w msg (case m_text msg of Some t \<Rightarrow> t | None \<Rightarrow> [])
      else case sessions w chatId of
        None \<Rightarrow>
          (case pendingMenuActionByChatId w chatId of
             None \<Rightarrow> w
           | Some action \<Rightarrow>
               if isCommandText (m_text msg) then w
               else
                 (let raw = normalizeText (m_text msg);
                      w1 = w\<lparr>pendingMenuActionByChatId := (pendingMenuActionByChatId w)(chatId := None)\<rparr> in
                  if raw = []
                    then send chatId [Say ''Please send the activity ID (you can get it from /list).''] w1
                  else case action of
                    MenuEdit \<Rightarrow> beginEditFlow cfg en w1 chatId (m_from msg) (Some raw)
                  | MenuDelete \<Rightarrow> handleDeleteById cfg en w1 chatId (m_from msg) (Some raw)))
      | Some s \<Rightarrow>
          if isCommandText (m_text msg) then w
          else case stepInput cfg en msg s of
            Inl e \<Rightarrow> endSession chatId (send chatId [Say ''Error occurred, session canceled''] w)
          | Inr r \<Rightarrow> applyStep chatId r w)"

section \<open>The callback handler\<close>







section \<open>How a message reaches the handlers\<close>

text \<open>
  The bot library (node-telegram-bot-api, \<open>processUpdate\<close>) hands an incoming message
  first to the listener of the event \<open>message\<close> and then, when the message has a text, to
  the callback of every \<open>onText\<close> pattern that the text matches, in the order in which
  the patterns were registered (\<open>onlyFirstMatch\<close> is not set). None of the patterns of the
  bot is anchored, so a command is found anywhere in the text. A callback gets the
  leftmost match of its pattern.
\<close>

fun tails :: "string \<Rightarrow> string list" where
  "tails [] = [[]]"
| "tails (c # cs) = (c # cs) # tails cs"

definition afterEach :: "bool \<Rightarrow> string \<Rightarrow> string \<Rightarrow> string list" where
  \<comment> \<open>what follows each occurrence of \<open>p\<close> in \<open>t\<close>, the leftmost first; \<open>ci\<close> is the flag \<open>i\<close>\<close>
  "afterEach ci p t =
     map (drop (length p))
       (filter (\<lambda>u. startsWith (if ci then toLowerCase u else u) p) (tails t))"

definition spaceArg :: "string \<Rightarrow> string option" where
  \<comment> \<open>\<open>\s+([\s\S]+)\<close> at the start of \<open>r\<close>: the group is the rest after the blanks, or the
      last blank when nothing follows at least two of them\<close>
  "spaceArg r =
     (let ws = takeWhile isSpace r; rest = dropWhile isSpace r in
      if ws = [] then None
      else if rest \<noteq> [] then Some rest
      else if 2 \<le> length ws then Some [last ws]
      else None)"

definition addArg :: "string \<Rightarrow> string option" where
  \<comment> \<open>\<open>(\s+[\s\S]+)\<close> at the start of \<open>r\<close>: the group is all of \<open>r\<close>\<close>
  "addArg r = (if r \<noteq> [] \<and> isSpace (hd r) \<and> 2 \<le> length r then Some r else None)"

datatype command =
    CStart | CMenu | CHelp | CNew | CCancel | CSkip | CBack
  | CEdit string | CDelete string | CAdd string | CList

definition textMatches :: "string \<Rightarrow> command list" where
  \<comment> \<open>the \<open>onText\<close> patterns that a text matches, in the order of registration:
      \<open>/\/start/\<close>, \<open>/\/menu/\<close>, \<open>/\/help/\<close>, \<open>/\/new/\<close>, \<open>/\/cancel/\<close>,
      \<open>/\/skip(?:@\w+)?/i\<close>, \<open>/\/back(?:@\w+)?/i\<close>, \<open>/\/edit\s+([\s\S]+)/i\<close>,
      \<open>/\/delete\s+([\s\S]+)/i\<close>, \<open>/\/add(\s+[\s\S]+)/i\<close>, \<open>/\/list(?:\s+(\d+))?\b/i\<close>\<close>
  "textMatches t =
     (if afterEach False ''/start'' t \<noteq> [] then [CStart] else [])
     @ (if afterEach False ''/menu'' t \<noteq> [] then [CMenu] else [])
     @ (if afterEach False ''/help'' t \<noteq> [] then [CHelp] else [])
     @ (if afterEach False ''/new'' t \<noteq> [] then [CNew] else [])
     @ (if afterEach False ''/cancel'' t \<noteq> [] then [CCancel] else [])
     @ (if afterEach True ''/skip'' t \<noteq> [] then [CSkip] else [])
     @ (if afterEach True ''/back'' t \<noteq> [] then [CBack] else [])
     @ (case firstResolved (map spaceArg (afterEach True ''/edit'' t)) of
          Some a \<Rightarrow> [CEdit a] | None \<Rightarrow> [])
     @ (case firstResolved (map spaceArg (afterEach True ''/delete'' t)) of
          Some a \<Rightarrow> [CDelete a] | None \<Rightarrow> [])
     @ (case firstResolved (map addArg (afterEach True ''/add'' t)) of
          Some a \<Rightarrow> [CAdd a] | None \<Rightarrow> [])
     @ (if list_ex (\<lambda>r. r = [] \<or> \<not> isWordChar (hd r)) (afterEach True ''/list'' t)
        then [CList] else [])"

definition onText :: "config \<Rightarrow> env \<Rightarrow> message \<Rightarrow> command \<Rightarrow> world \<Rightarrow> world" where
  \<comment> \<open>the callback registered for each pattern\<close>
  "onText cfg en msg cmd w =
     (case cmd of
        CStart \<Rightarrow> send (m_chat msg) [ShowMainMenu] w
      | CMenu \<Rightarrow> send (m_chat msg) [ShowMainMenu] w
      | CHelp \<Rightarrow> on_help w msg
      | CNew \<Rightarrow> on_new cfg w msg
      | CCancel \<Rightarrow> on_cancel w msg
      | CSkip \<Rightarrow> on_skip cfg en w msg
      | CBack \<Rightarrow> on_back w msg
      | CEdit a \<Rightarrow> on_edit cfg en w msg a
      | CDelete a \<Rightarrow> on_delete cfg en w msg a
      | CAdd a \<Rightarrow> on_add cfg en w msg a
      | CList \<Rightarrow> on_list w msg)"

definition dispatchMessage :: "config \<Rightarrow> env \<Rightarrow> world \<Rightarrow> message \<Rightarrow> world" where
  "dispatchMessage cfg en w msg =
     fold (onText cfg en msg) (case m_text msg of None \<Rightarrow> [] | Some t \<Rightarrow> textMatches t)
       (on_message cfg en w msg)"

definition isBackslashText :: "string option \<Rightarrow> bool" where
  \<comment> \<open>the test \<open>msg.text && msg.text.startsWith('\\')\<close> of the message listener\<close>
  "isBackslashText text = (case text of Some t \<Rightarrow> startsWith t [CHR 0x5C] | None \<Rightarrow> False)"

definition isStepInputOnly :: "message \<Rightarrow> bool" where
  \<comment> \<open>a message that the listener takes as input for the current step and that no
      \<open>onText\<close> pattern matches\<close>
  "isStepInputOnly msg =
     (\<not> m_edit_date msg \<and> \<not> isBackslashText (m_text msg) \<and> \<not> isCommandText (m_text msg)
      \<and> (case m_text msg of None \<Rightarrow> True | Some t \<Rightarrow> textMatches t = []))"

definition dateFromClock :: "config \<Rightarrow> message \<Rightarrow> session \<Rightarrow> bool" where
  \<comment> \<open>the inputs for which the date step stores the time of the clock: a skip outside an
      edit, a blank text, one of the words for now, and a text that no stage resolves\<close>
  "dateFromClock cfg msg s =
     (let raw = normalizeText (m_text msg) in
      if isSkipText (Some raw) then s_mode s \<noteq> Edit
      else raw = [] \<or> isNowKeyword (toLowerCase (trim raw))
           \<or> (dateParse cfg raw = None \<and> dateParse cfg (blankToT raw) = None
               \<and> structuredStage raw = None))"

section \<open>Example inputs\<close>

text \<open>
  An open, file-backed configuration whose engine reads no free text as a date, and an
  edit session in guided mode seeded with the count 1200 and with coordinates.
\<close>

definition exampleConfig :: config where
  "exampleConfig = \<lparr>ALLOWED = [], UPLOADS_DIR = ''/srv/bot/telegram-bot/uploads'',
     dbOn = False, announceOn = False,
     dateParse = (\<lambda>_. None), numberOf = (\<lambda>_. NaN)\<rparr>"

definition exampleParser :: "string \<Rightarrow> instant option" where
  \<comment> \<open>an engine, its clock on UTC, that reads the ISO form and a month name\<close>
  "exampleParser s =
     (if s = ''2025-12-20T14:30'' then Some 1766241000000
      else if s = ''Dec 20 2025'' then Some 1766188800000
      else None)"

definition exampleEnv :: env where
  "exampleEnv = \<lparr>e_now = 1766241000000, e_geo = None, e_downloadOk = True,
     e_random = ''k3x9q2ab'', e_dbThrows = False, e_dbNewId = None, e_uploadUrl = None\<rparr>"

definition laterEnv :: env where
  \<comment> \<open>the same outside a minute later\<close>
  "laterEnv = exampleEnv\<lparr>e_now := 1766241060000\<rparr>"

definition exampleDraft :: draft where
  "exampleDraft = \<lparr>d_id = Some ''a-11111111'', d_title = Some ''Quran distribution'',
     d_activity_type = Some ''distribution'', d_date = Some 1700000000000, d_dateRaw = None,
     d_count = Some (CNum (Fin 1200)), d_location = Some ''Kuala Lumpur'',
     d_lat = Some (Fin 3), d_lng = Some (Fin 101), d_note = Some [], d_attachment = None\<rparr>"

definition exampleSession :: "step \<Rightarrow> session" where
  "exampleSession st = \<lparr>s_userId = 7, s_mode = Edit, s_editMode = Guided, s_step = st,
     s_data = exampleDraft, s_pending = None\<rparr>"

definition exampleWorld :: "step \<Rightarrow> world" where
  "exampleWorld st = \<lparr>sessions = Map.empty(1 \<mapsto> exampleSession st),
     pendingMenuActionByChatId = Map.empty, activities = [], outbox = []\<rparr>"

definition textMessage :: "string \<Rightarrow> message" where
  "textMessage t = \<lparr>m_chat = 1, m_from = 7, m_text = Some t, m_caption = None,
     m_location = None, m_photo = [], m_document = None, m_edit_date = False\<rparr>"



definition emptyWorld :: world where
  "emptyWorld = \<lparr>sessions = Map.empty, pendingMenuActionByChatId = Map.empty,
     activities = [], outbox = []\<rparr>"




section \<open>The callback actions the handler knows\<close>


section \<open>Verified properties\<close>

subsection \<open>Trimming and the skip token\<close>

lemma dropWhile_id: "xs \<noteq> [] \<Longrightarrow> \<not> P (hd xs) \<Longrightarrow> dropWhile P xs = xs"
  by (cases xs) auto

lemma trim_Nil: "trim [] = []"
  by (simp add: trim_def)

lemma trim_head: "trim s \<noteq> [] \<Longrightarrow> \<not> isSpace (hd (trim s))"
proof -
  assume ne: "trim s \<noteq> []"
  define a where "a = dropWhile isSpace s"
  define b where "b = dropWhile isSpace (rev a)"
  have t: "trim s = rev b" by (simp add: trim_def a_def b_def)
  have bne: "b \<noteq> []" using ne t by simp
  have "rev a = takeWhile isSpace (rev a) @ b" by (simp add: b_def)
  then have "a = rev b @ rev (takeWhile isSpace (rev a))"
    by (metis rev_append rev_rev_ident)
  then have "hd a = hd (rev b)" using bne by (metis hd_append2 rev_is_Nil_conv)
  moreover have "a \<noteq> []" using bne b_def by auto
  then have "\<not> isSpace (hd a)" unfolding a_def by (metis hd_dropWhile)
  ultimately show ?thesis using t by simp
qed

lemma trim_last: "trim s \<noteq> [] \<Longrightarrow> \<not> isSpace (last (trim s))"
proof -
  assume ne: "trim s \<noteq> []"
  define b where "b = dropWhile isSpace (rev (dropWhile isSpace s))"
  have t: "trim s = rev b" by (simp add: trim_def b_def)
  have bne: "b \<noteq> []" using ne t by simp
  then have "\<not> isSpace (hd b)" unfolding b_def by (metis hd_dropWhile)
  then show ?thesis using t bne by (simp add: last_rev)
qed

lemma trim_trim: "trim (trim s) = trim s"
proof (cases "trim s = []")
  case True
  then show ?thesis using trim_Nil by simp
next
  case False
  have 1: "dropWhile isSpace (trim s) = trim s"
    using trim_head[OF False] False by (rule_tac dropWhile_id)
  have "\<not> isSpace (hd (rev (trim s)))"
    using trim_last[OF False] False by (simp add: hd_rev)
  then have 2: "dropWhile isSpace (rev (trim s)) = rev (trim s)"
    using False by (intro dropWhile_id) simp_all
  show ?thesis
    unfolding trim_def[of "trim s"] 1 2 by simp
qed

lemma isSkipText_normalizeText: "isSkipText (Some (normalizeText raw)) = isSkipText raw"
proof (cases raw)
  case None
  then show ?thesis using trim_Nil by (simp add: isSkipText_def normalizeText_def)
next
  case (Some a)
  then show ?thesis by (simp add: isSkipText_def normalizeText_def trim_trim)
qed

lemmas text_defs = normalizeText_def trim_def isSkipText_def toLowerCase_def lowerChar_def
  startsWith_def isSpace_def isDigit_def isWordChar_def

subsection \<open>The count parser\<close>

lemmas count_defs = parseCountInput_def normalizeText_def trim_def isSkipText_def
  toLowerCase_def lowerChar_def startsWith_def allZeros_def isCountSeparator_def isSpace_def
  isDigit_def digitMatch_def inDigitRun_def numStr_def countRemainder_def jsNumber_def
  digitsValue_def infinityBound_def

lemma parseCountInput_zero:
  "allZeros (filter (\<lambda>c. \<not> isCountSeparator c) (normalizeText raw)) \<Longrightarrow> parseCountInput raw = None"
  by (simp add: parseCountInput_def Let_def)

lemma parseCountInput_skip: "isSkipText raw \<Longrightarrow> parseCountInput raw = None"
  by (simp add: parseCountInput_def Let_def isSkipText_normalizeText)

lemma parseCountInput_num:
  "normalizeText raw \<noteq> [] \<Longrightarrow> \<not> isSkipText raw \<Longrightarrow>
   \<not> allZeros (filter (\<lambda>c. \<not> isCountSeparator c) (normalizeText raw)) \<Longrightarrow>
   digitMatch (normalizeText raw) = Some m \<Longrightarrow> jsNumber (numStr m) = Fin n \<Longrightarrow>
   countRemainder (normalizeText raw) m \<in> {[], ''mushaf'', ''mushafs''} \<Longrightarrow>
   parseCountInput raw = Some (CNum (Fin n))"
  by (auto simp add: parseCountInput_def Let_def isSkipText_normalizeText)

lemma parseCountInput_text:
  "normalizeText raw \<noteq> [] \<Longrightarrow> \<not> isSkipText raw \<Longrightarrow>
   \<not> allZeros (filter (\<lambda>c. \<not> isCountSeparator c) (normalizeText raw)) \<Longrightarrow>
   \<not> (\<exists>m n. digitMatch (normalizeText raw) = Some m \<and> jsNumber (numStr m) = Fin n \<and>
        countRemainder (normalizeText raw) m \<in> {[], ''mushaf'', ''mushafs''}) \<Longrightarrow>
   parseCountInput raw = Some (CText (normalizeText raw))"
  by (auto simp add: parseCountInput_def Let_def isSkipText_normalizeText
      split: option.splits jsnum.splits)

text \<open>
  Claim C3, as the code has it. The four reference inputs give what the claim says:
  \<open>"1,200 Mushaf"\<close> the number 1200, \<open>"0"\<close> null, \<open>"8000"\<close> the number 8000 and
  \<open>"approximately fifty"\<close> the text itself. In general an all-zero input and the skip
  token give null; the number is kept when the first digit run, its separators other than
  the dot removed, reads as a finite number and what remains of the text is empty or the
  unit \<open>mushaf\<close>/\<open>mushafs\<close>; in every other case the whole trimmed text is kept.
\<close>

theorem parseCountInput_rules:
  "parseCountInput (Some ''1,200 Mushaf'') = Some (CNum (Fin 1200)) \<and>
   parseCountInput (Some ''0'') = None \<and>
   parseCountInput (Some ''8000'') = Some (CNum (Fin 8000)) \<and>
   parseCountInput (Some ''approximately fifty'') = Some (CText ''approximately fifty'') \<and>
   (\<forall>raw. allZeros (filter (\<lambda>c. \<not> isCountSeparator c) (normalizeText raw))
      \<longrightarrow> parseCountInput raw = None) \<and>
   (\<forall>raw. isSkipText raw \<longrightarrow> parseCountInput raw = None) \<and>
   (\<forall>raw m n. normalizeText raw \<noteq> [] \<and> \<not> isSkipText raw \<and>
      \<not> allZeros (filter (\<lambda>c. \<not> isCountSeparator c) (normalizeText raw)) \<and>
      digitMatch (normalizeText raw) = Some m \<and> jsNumber (numStr m) = Fin n \<and>
      countRemainder (normalizeText raw) m \<in> {[], ''mushaf'', ''mushafs''}
      \<longrightarrow> parseCountInput raw = Some (CNum (Fin n))) \<and>
   (\<forall>raw. normalizeText raw \<noteq> [] \<and> \<not> isSkipText raw \<and>
      \<not> allZeros (filter (\<lambda>c. \<not> isCountSeparator c) (normalizeText raw)) \<and>
      \<not> (\<exists>m n. digitMatch (normalizeText raw) = Some m \<and> jsNumber (numStr m) = Fin n \<and>
           countRemainder (normalizeText raw) m \<in> {[], ''mushaf'', ''mushafs''})
      \<longrightarrow> parseCountInput raw = Some (CText (normalizeText raw)))"
proof (intro conjI allI impI)
  show "parseCountInput (Some ''1,200 Mushaf'') = Some (CNum (Fin 1200))"
    by (simp add: count_defs)
  show "parseCountInput (Some ''0'') = None"
    by (simp add: count_defs)
  show "parseCountInput (Some ''8000'') = Some (CNum (Fin 8000))"
    by (simp add: count_defs)
  show "parseCountInput (Some ''approximately fifty'') = Some (CText ''approximately fifty'')"
    by (simp add: count_defs)
next
  fix raw
  assume "allZeros (filter (\<lambda>c. \<not> isCountSeparator c) (normalizeText raw))"
  then show "parseCountInput raw = None" by (rule parseCountInput_zero)
next
  fix raw
  assume "isSkipText raw"
  then show "parseCountInput raw = None" by (rule parseCountInput_skip)
next
  fix raw m n
  assume "normalizeText raw \<noteq> [] \<and> \<not> isSkipText raw \<and>
      \<not> allZeros (filter (\<lambda>c. \<not> isCountSeparator c) (normalizeText raw)) \<and>
      digitMatch (normalizeText raw) = Some m \<and> jsNumber (numStr m) = Fin n \<and>
      countRemainder (normalizeText raw) m \<in> {[], ''mushaf'', ''mushafs''}"
  then show "parseCountInput raw = Some (CNum (Fin n))"
    using parseCountInput_num by blast
next
  fix raw
  assume "normalizeText raw \<noteq> [] \<and> \<not> isSkipText raw \<and>
      \<not> allZeros (filter (\<lambda>c. \<not> isCountSeparator c) (normalizeText raw)) \<and>
      \<not> (\<exists>m n. digitMatch (normalizeText raw) = Some m \<and> jsNumber (numStr m) = Fin n \<and>
           countRemainder (normalizeText raw) m \<in> {[], ''mushaf'', ''mushafs''})"
  then show "parseCountInput raw = Some (CText (normalizeText raw))"
    using parseCountInput_text by blast
qed

theorem parseCountInput_rules_witness:
  "allZeros (filter (\<lambda>c. \<not> isCountSeparator c) (normalizeText (Some '' 0,000 ''))) \<and>
   parseCountInput (Some '' 0,000 '') = None \<and>
   isSkipText (Some ''/skip@bot'') \<and>
   parseCountInput (Some ''/skip@bot'') = None \<and>
   digitMatch (normalizeText (Some ''12 mushafs'')) = Some ''12 '' \<and>
   jsNumber (numStr ''12 '') = Fin 12 \<and>
   countRemainder (normalizeText (Some ''12 mushafs'')) ''12 '' \<in> {[], ''mushaf'', ''mushafs''} \<and>
   parseCountInput (Some ''12 mushafs'') = Some (CNum (Fin 12)) \<and>
   digitMatch (normalizeText (Some ''about 50 boxes'')) = Some ''50 '' \<and>
   countRemainder (normalizeText (Some ''about 50 boxes'')) ''50 '' = ''about boxes'' \<and>
   parseCountInput (Some ''about 50 boxes'') = Some (CText ''about 50 boxes'')"
proof -
  have u1: "digitMatch (normalizeText (Some ''about 50 boxes'')) = Some ''50 ''"
    by (simp add: count_defs)
  have u2: "countRemainder (normalizeText (Some ''about 50 boxes'')) ''50 '' = ''about boxes''"
    by (simp add: count_defs)
  have u3: "normalizeText (Some ''about 50 boxes'') = ''about 50 boxes''"
    by (simp add: count_defs)
  have z: "allZeros (filter (\<lambda>c. \<not> isCountSeparator c) (normalizeText (Some '' 0,000 '')))"
    by (simp add: count_defs)
  have k: "isSkipText (Some ''/skip@bot'')"
    by (simp add: count_defs)
  have c1: "normalizeText (Some ''12 mushafs'') \<noteq> []"
    by (simp add: count_defs)
  have c2: "\<not> isSkipText (Some ''12 mushafs'')"
    by (simp add: count_defs)
  have c3: "\<not> allZeros (filter (\<lambda>c. \<not> isCountSeparator c) (normalizeText (Some ''12 mushafs'')))"
    by (simp add: count_defs)
  have c4: "digitMatch (normalizeText (Some ''12 mushafs'')) = Some ''12 ''"
    by (simp add: count_defs)
  have c5: "jsNumber (numStr ''12 '') = Fin 12"
    by (simp add: count_defs)
  have c6: "countRemainder (normalizeText (Some ''12 mushafs'')) ''12 '' \<in> {[], ''mushaf'', ''mushafs''}"
    by (simp add: count_defs)
  have t1: "normalizeText (Some ''about 50 boxes'') \<noteq> []"
    by (simp add: count_defs)
  have t2: "\<not> isSkipText (Some ''about 50 boxes'')"
    by (simp add: count_defs)
  have t3: "\<not> allZeros (filter (\<lambda>c. \<not> isCountSeparator c) (normalizeText (Some ''about 50 boxes'')))"
    by (simp add: count_defs)
  have t4: "\<not> (\<exists>m n. digitMatch (normalizeText (Some ''about 50 boxes'')) = Some m \<and>
          jsNumber (numStr m) = Fin n \<and>
          countRemainder (normalizeText (Some ''about 50 boxes'')) m \<in> {[], ''mushaf'', ''mushafs''})"
    by (simp add: count_defs)
  note r5 = parseCountInput_rules [THEN conjunct2, THEN conjunct2, THEN conjunct2,
    THEN conjunct2, THEN conjunct1, rule_format]
  note r6 = parseCountInput_rules [THEN conjunct2, THEN conjunct2, THEN conjunct2,
    THEN conjunct2, THEN conjunct2, THEN conjunct1, rule_format]
  note r7 = parseCountInput_rules [THEN conjunct2, THEN conjunct2, THEN conjunct2,
    THEN conjunct2, THEN conjunct2, THEN conjunct2, THEN conjunct1, rule_format]
  note r8 = parseCountInput_rules [THEN conjunct2, THEN conjunct2, THEN conjunct2,
    THEN conjunct2, THEN conjunct2, THEN conjunct2, THEN conjunct2, rule_format]
  have a: "parseCountInput (Some '' 0,000 '') = None"
    by (rule r5) (rule z)
  have b: "parseCountInput (Some ''/skip@bot'') = None"
    by (rule r6) (rule k)
  have c: "parseCountInput (Some ''12 mushafs'') = Some (CNum (Fin 12))"
    by (rule r7 [of "Some ''12 mushafs''" "''12 ''" 12]) (intro conjI c1 c2 c3 c4 c5 c6)
  have d: "parseCountInput (Some ''about 50 boxes'')
      = Some (CText (normalizeText (Some ''about 50 boxes'')))"
    by (rule r8 [of "Some ''about 50 boxes''"]) (intro conjI t1 t2 t3 t4)
  show ?thesis
    using d unfolding u3 by (intro conjI z a k b c4 c5 c6 c u1 [unfolded u3] u2 [unfolded u3])
qed

theorem parseCountInput_dotted_run_counterexample:
  "digitMatch ''1.200.000 mushaf'' = Some ''1.200.000 '' \<and>
   countRemainder ''1.200.000 mushaf'' ''1.200.000 '' = ''mushaf'' \<and>
   parseCountInput (Some ''1.200.000 mushaf'') = Some (CText ''1.200.000 mushaf'')"
  by (simp add: count_defs)

subsection \<open>The date parser\<close>

lemma isoOf_Some: "isoOf (Some t) = Inr (Some t)"
  by (simp add: isoOf_def toISOString_def)

lemma dateUTC_clip: "dateUTC y m d h mi = Some t \<Longrightarrow> timeClipOk t"
  by (auto simp add: dateUTC_def Let_def split: if_splits)

lemma firstResolved_mem: "firstResolved xs = Some t \<Longrightarrow> Some t \<in> set xs"
  by (induction xs rule: firstResolved.induct) auto

lemma keyword_Nil: "\<not> isNowKeyword (toLowerCase (trim []))"
  by (simp add: trim_def toLowerCase_def isNowKeyword_def)

lemma dateRegex_Nil: "dateRegex [] = None"
  by (simp add: dateRegex_def)

lemma resolutionOrder_Nil: "resolutionOrder dp now [] = None"
  using keyword_Nil
  by (simp add: resolutionOrder_def keywordStage_def directStage_def substitutionStage_def
      structuredStage_def newDate_def dateRegex_Nil)

lemma parseFlexibleDate_eq: "parseFlexibleDate dp now s = Inr (resolutionOrder dp now s)"
proof (cases "s = []")
  case True
  then show ?thesis by (simp add: parseFlexibleDate_def resolutionOrder_Nil)
next
  case False
  then show ?thesis
    by (simp add: parseFlexibleDate_def resolutionOrder_def keywordStage_def directStage_def
      substitutionStage_def structuredStage_def isoOf_Some
      split: option.splits prod.splits)
qed

lemma structuredStage_clip: "structuredStage s = Some t \<Longrightarrow> timeClipOk t"
  by (auto simp add: structuredStage_def split: option.splits prod.splits dest: dateUTC_clip)

lemma replaceFirst_blank: "replaceFirst '' '' ''T'' s = blankToT s"
  by (induction s) (simp_all add: blankToT_def)

lemma parseFlexibleDate_keyword:
  assumes "toLowerCase (trim s) \<in> {''now'', ''current'', ''current time'', ''today'', ''today now''}"
  shows "parseFlexibleDate dp now s = Inr (Some now)"
proof -
  have "s \<noteq> []" using assms trim_Nil by (auto simp add: toLowerCase_def)
  then show ?thesis using assms
    by (simp add: parseFlexibleDate_def isNowKeyword_def isoOf_Some)
qed

lemma parseFlexibleDate_later:
  assumes "s \<noteq> []"
    and "toLowerCase (trim s) \<notin> {''now'', ''current'', ''current time'', ''today'', ''today now''}"
  shows "parseFlexibleDate dp now s =
     (case dp s of
        Some t \<Rightarrow> Inr (Some t)
      | None \<Rightarrow> (case dp (blankToT s) of
          Some t \<Rightarrow> Inr (Some t)
        | None \<Rightarrow> Inr (structuredStage s)))"
proof -
  have b: "blankToT s \<noteq> []" using assms(1) by (cases s) (simp_all add: blankToT_def)
  have k: "\<not> isNowKeyword (toLowerCase (trim s))"
    using assms(2) by (simp add: isNowKeyword_def)
  show ?thesis
    using assms(1) b k
    by (simp add: parseFlexibleDate_def newDate_def replaceFirst_blank isoOf_Some
        structuredStage_def split: option.splits prod.splits)
qed

lemmas regex_defs = dateRegex_def takeDigits2_def isDigit_def isDateSep_def timePart_def
  digitsValue_def Let_def

lemmas utc_defs = dateUTC_def makeDay_def daysFromCivil_def timeClipOk_def Let_def

lemma dateRegex_vectors:
  "dateRegex ''2025/12/20 14:30'' = Some (2025, 12, 20, 14, 30)"
  "dateRegex ''1970-1-1'' = Some (1970, 1, 1, 0, 0)"
  "dateRegex ''2024-02-29'' = Some (2024, 2, 29, 0, 0)"
  "dateRegex ''2000-3-1T7:05'' = Some (2000, 3, 1, 7, 5)"
  "dateRegex ''1999-12-31 23:59'' = Some (1999, 12, 31, 23, 59)"
  "dateRegex ''2025-13-45'' = Some (2025, 13, 45, 0, 0)"
  "dateRegex ''2025-12'' = None"
  "dateRegex ''20251220'' = None"
  "dateRegex ''sometime next week'' = None"
  by (simp_all add: regex_defs)

lemma dateUTC_vectors:
  "dateUTC 2025 11 20 14 30 = Some 1766241000000"
  "dateUTC 1970 0 1 0 0 = Some 0"
  "dateUTC 2024 1 29 0 0 = Some 1709164800000"
  "dateUTC 2000 2 1 7 5 = Some 951894300000"
  "dateUTC 1999 11 31 23 59 = Some 946684740000"
  "dateUTC 2025 12 45 0 0 = Some 1771027200000"
  by (simp_all add: utc_defs)

lemma structured_vectors:
  "structuredStage ''2025/12/20 14:30'' = Some 1766241000000"
  "structuredStage ''1970-1-1'' = Some 0"
  "structuredStage ''2024-02-29'' = Some 1709164800000"
  "structuredStage ''2000-3-1T7:05'' = Some 951894300000"
  "structuredStage ''1999-12-31 23:59'' = Some 946684740000"
  "structuredStage ''2025-13-45'' = Some 1771027200000"
  "structuredStage ''2025-12'' = None"
  "structuredStage ''20251220'' = None"
  "structuredStage ''sometime next week'' = None"
  unfolding structuredStage_def dateRegex_vectors
  by (simp_all add: dateUTC_vectors)

text \<open>
  Claim C6. For every input string \<open>parseFlexibleDate\<close> returns without throwing, and
  what it returns is either empty or an instant in the range of valid dates (the clock and
  the engine's parser being taken to give valid instants, as they do). The stages come in
  the stated order. A text that, trimmed and in lower case, is one of \<open>now\<close>, \<open>current\<close>,
  \<open>current time\<close>, \<open>today\<close>, \<open>today now\<close> gives the current instant, whatever the
  engine would make of it. Any other non-empty text gives what the engine reads in it;
  when the engine reads nothing, what the engine reads in the text with its first blank
  replaced by \<open>T\<close>; when it reads nothing there either, the instant of the structured
  pattern \<open>YYYY-MM-DD[ HH:MM]\<close> on the UTC clock; and when the pattern does not match,
  the result is empty, as it is for the empty text.
\<close>

theorem parseFlexibleDate_total_ordered:
  assumes "timeClipOk now" and "\<forall>x t. dp x = Some t \<longrightarrow> timeClipOk t"
  shows "(\<exists>r. parseFlexibleDate dp now s = Inr r \<and> (\<forall>t. r = Some t \<longrightarrow> timeClipOk t)) \<and>
         (toLowerCase (trim s) \<in> {''now'', ''current'', ''current time'', ''today'', ''today now''}
            \<longrightarrow> parseFlexibleDate dp now s = Inr (Some now)) \<and>
         parseFlexibleDate dp now ''NOW'' = Inr (Some now) \<and>
         parseFlexibleDate dp now ''  ToDay '' = Inr (Some now) \<and>
         parseFlexibleDate dp now ''Current Time'' = Inr (Some now) \<and>
         (s \<noteq> [] \<and>
          toLowerCase (trim s) \<notin> {''now'', ''current'', ''current time'', ''today'', ''today now''}
            \<longrightarrow>
            (\<forall>t. dp s = Some t \<longrightarrow> parseFlexibleDate dp now s = Inr (Some t)) \<and>
            (\<forall>t. dp s = None \<and> dp (blankToT s) = Some t \<longrightarrow>
                 parseFlexibleDate dp now s = Inr (Some t)) \<and>
            (dp s = None \<and> dp (blankToT s) = None \<longrightarrow>
                 parseFlexibleDate dp now s = Inr (structuredStage s))) \<and>
         blankToT ''2025-12-20 14:30'' = ''2025-12-20T14:30'' \<and>
         blankToT ''Dec 20 2025'' = ''DecT20 2025'' \<and>
         blankToT ''today'' = ''today'' \<and>
         structuredStage ''2025/12/20 14:30'' = Some 1766241000000 \<and>
         structuredStage ''1970-1-1'' = Some 0 \<and>
         structuredStage ''2024-02-29'' = Some 1709164800000 \<and>
         structuredStage ''2000-3-1T7:05'' = Some 951894300000 \<and>
         structuredStage ''1999-12-31 23:59'' = Some 946684740000 \<and>
         structuredStage ''2025-13-45'' = Some 1771027200000 \<and>
         structuredStage ''2025-12'' = None \<and>
         structuredStage ''20251220'' = None \<and>
         structuredStage ''sometime next week'' = None \<and>
         parseFlexibleDate dp now [] = Inr None"
proof -
  have valid: "timeClipOk t" if r: "resolutionOrder dp now s = Some t" for t
  proof -
    from r have "Some t \<in> {keywordStage now s, directStage dp s, substitutionStage dp s,
        structuredStage s}"
      unfolding resolutionOrder_def by (drule_tac firstResolved_mem) simp
    then consider "keywordStage now s = Some t" | "directStage dp s = Some t"
      | "substitutionStage dp s = Some t" | "structuredStage s = Some t"
      by auto
    then show ?thesis
    proof cases
      case 1
      then show ?thesis using assms(1) by (simp add: keywordStage_def split: if_splits)
    next
      case 2
      then show ?thesis using assms(2) by (simp add: directStage_def newDate_def split: if_splits)
    next
      case 3
      then show ?thesis using assms(2)
        by (simp add: substitutionStage_def newDate_def split: if_splits)
    next
      case 4
      then show ?thesis by (rule structuredStage_clip)
    qed
  qed
  have total: "\<exists>r. parseFlexibleDate dp now s = Inr r \<and> (\<forall>t. r = Some t \<longrightarrow> timeClipOk t)"
    using valid parseFlexibleDate_eq by blast
  have kw: "parseFlexibleDate dp now s = Inr (Some now)"
    if "toLowerCase (trim s) \<in> {''now'', ''current'', ''current time'', ''today'', ''today now''}"
    using that by (rule parseFlexibleDate_keyword)
  have k1: "parseFlexibleDate dp now ''NOW'' = Inr (Some now)"
    by (rule parseFlexibleDate_keyword) (simp add: text_defs)
  have k2: "parseFlexibleDate dp now ''  ToDay '' = Inr (Some now)"
    by (rule parseFlexibleDate_keyword) (simp add: text_defs)
  have k3: "parseFlexibleDate dp now ''Current Time'' = Inr (Some now)"
    by (rule parseFlexibleDate_keyword) (simp add: text_defs)
  have later: "(\<forall>t. dp s = Some t \<longrightarrow> parseFlexibleDate dp now s = Inr (Some t)) \<and>
            (\<forall>t. dp s = None \<and> dp (blankToT s) = Some t \<longrightarrow>
                 parseFlexibleDate dp now s = Inr (Some t)) \<and>
            (dp s = None \<and> dp (blankToT s) = None \<longrightarrow>
                 parseFlexibleDate dp now s = Inr (structuredStage s))"
    if "s \<noteq> [] \<and>
        toLowerCase (trim s) \<notin> {''now'', ''current'', ''current time'', ''today'', ''today now''}"
    using parseFlexibleDate_later [of s dp now] that by simp
  have b1: "blankToT ''2025-12-20 14:30'' = ''2025-12-20T14:30''" by (simp add: blankToT_def)
  have b2: "blankToT ''Dec 20 2025'' = ''DecT20 2025''" by (simp add: blankToT_def)
  have b3: "blankToT ''today'' = ''today''" by (simp add: blankToT_def)
  have e: "parseFlexibleDate dp now [] = Inr None" by (simp add: parseFlexibleDate_def)
  show ?thesis
    using later
    by (intro conjI impI total kw k1 k2 k3 b1 b2 b3 structured_vectors e) simp_all
qed

theorem parseFlexibleDate_total_ordered_witness:
  "timeClipOk 1766300000000 \<and>
   parseFlexibleDate exampleParser 1766300000000 '' Today '' = Inr (Some 1766300000000) \<and>
   exampleParser ''Dec 20 2025'' = Some 1766188800000 \<and>
   parseFlexibleDate exampleParser 1766300000000 ''Dec 20 2025'' = Inr (Some 1766188800000) \<and>
   exampleParser ''2025-12-20 14:30'' = None \<and>
   exampleParser (blankToT ''2025-12-20 14:30'') = Some 1766241000000 \<and>
   parseFlexibleDate exampleParser 1766300000000 ''2025-12-20 14:30'' = Inr (Some 1766241000000) \<and>
   exampleParser ''2024-02-29'' = None \<and> exampleParser (blankToT ''2024-02-29'') = None \<and>
   parseFlexibleDate exampleParser 1766300000000 ''2024-02-29'' = Inr (Some 1709164800000) \<and>
   parseFlexibleDate exampleParser 1766300000000 ''sometime next week'' = Inr None"
proof -
  let ?K = "{''now'', ''current'', ''current time'', ''today'', ''today now''}"
  have a: "timeClipOk 1766300000000" by (simp add: timeClipOk_def)
  have b: "\<forall>x t. exampleParser x = Some t \<longrightarrow> timeClipOk t"
    by (simp add: exampleParser_def timeClipOk_def)
  note t = parseFlexibleDate_total_ordered [OF a b]
  have k: "toLowerCase (trim '' Today '') = ''today''" by (simp add: text_defs)
  have w1: "parseFlexibleDate exampleParser 1766300000000 '' Today '' = Inr (Some 1766300000000)"
    using t [of "'' Today ''", THEN conjunct2, THEN conjunct1] k by simp
  note later = t [THEN conjunct2, THEN conjunct2, THEN conjunct2, THEN conjunct2,
      THEN conjunct2, THEN conjunct1, rule_format]
  have n2: "''Dec 20 2025'' \<noteq> [] \<and> toLowerCase (trim ''Dec 20 2025'') \<notin> ?K"
    by (simp add: text_defs)
  have d2: "exampleParser ''Dec 20 2025'' = Some 1766188800000" by (simp add: exampleParser_def)
  have w2: "parseFlexibleDate exampleParser 1766300000000 ''Dec 20 2025'' = Inr (Some 1766188800000)"
    using later [OF n2, THEN conjunct1] d2 by simp
  have n3: "''2025-12-20 14:30'' \<noteq> [] \<and> toLowerCase (trim ''2025-12-20 14:30'') \<notin> ?K"
    by (simp add: text_defs)
  have d3: "exampleParser ''2025-12-20 14:30'' = None" by (simp add: exampleParser_def)
  have s3: "exampleParser (blankToT ''2025-12-20 14:30'') = Some 1766241000000"
    by (simp add: exampleParser_def blankToT_def)
  have w3: "parseFlexibleDate exampleParser 1766300000000 ''2025-12-20 14:30''
      = Inr (Some 1766241000000)"
    using later [OF n3, THEN conjunct2, THEN conjunct1] d3 s3 by simp
  have n4: "''2024-02-29'' \<noteq> [] \<and> toLowerCase (trim ''2024-02-29'') \<notin> ?K"
    by (simp add: text_defs)
  have d4: "exampleParser ''2024-02-29'' = None" by (simp add: exampleParser_def)
  have s4: "exampleParser (blankToT ''2024-02-29'') = None"
    by (simp add: exampleParser_def blankToT_def)
  have v4: "structuredStage ''2024-02-29'' = Some 1709164800000"
    by (rule structured_vectors)
  have w4: "parseFlexibleDate exampleParser 1766300000000 ''2024-02-29'' = Inr (Some 1709164800000)"
    using later [OF n4, THEN conjunct2, THEN conjunct2] d4 s4 v4 by simp
  have n5: "''sometime next week'' \<noteq> [] \<and> toLowerCase (trim ''sometime next week'') \<notin> ?K"
    by (simp add: text_defs)
  have d5: "exampleParser ''sometime next week'' = None" by (simp add: exampleParser_def)
  have s5: "exampleParser (blankToT ''sometime next week'') = None"
    by (simp add: exampleParser_def blankToT_def)
  have v5: "structuredStage ''sometime next week'' = None"
    by (rule structured_vectors)
  have w5: "parseFlexibleDate exampleParser 1766300000000 ''sometime next week'' = Inr None"
    using later [OF n5, THEN conjunct2, THEN conjunct2] d5 s5 v5 by simp
  show ?thesis
    by (intro conjI a w1 d2 w2 d3 s3 w3 d4 s4 w4 w5)
qed

subsection \<open>The message handler inside a session\<close>

lemma on_message_in_session:
  assumes "sessions w (m_chat msg) = Some s" and "\<not> m_edit_date msg"
    and "m_text msg = Some txt" and "\<not> startsWith txt [CHR 0x5C]"
    and "\<not> isCommandText (Some txt)"
  shows "on_message cfg en w msg =
    (case stepInput cfg en msg s of
       Inl e \<Rightarrow> endSession (m_chat msg) (send (m_chat msg) [Say ''Error occurred, session canceled''] w)
     | Inr r \<Rightarrow> applyStep (m_chat msg) r w)"
  using assms by (simp add: on_message_def Let_def)

lemma sessions_applyStep: "sessions (applyStep c r w) c = Some (fst r)"
  by (simp add: applyStep_def send_def putSession_def)

lemma data_leave: "s_data (fst (leave s nxt reply)) = s_data s"
  by (simp add: leave_def)

lemma parseFlexibleDate_unresolved:
  assumes "parseFlexibleDate dp now raw = Inr None" and "raw \<noteq> []"
  shows "safeDateISO dp now raw = now"
  using assms
  by (auto simp add: parseFlexibleDate_def safeDateISO_def isoOf_Some split: if_splits option.splits)

text \<open>
  Claim C5. In a session at the date step, a text that is neither a command nor the skip
  token and that no stage of \<open>parseFlexibleDate\<close> resolves sets the draft's date to the
  current time of the event and keeps the trimmed text as \<open>dateRaw\<close>. The witness is the
  input \<open>"sometime next week"\<close>.
\<close>

theorem date_fallback:
  assumes "sessions w (m_chat msg) = Some s" and "s_step s = Date" and "\<not> m_edit_date msg"
    and "m_text msg = Some txt" and "\<not> startsWith txt [CHR 0x5C]"
    and "\<not> isCommandText (Some txt)" and "\<not> isSkipText (Some txt)"
    and "normalizeText (Some txt) \<noteq> []"
    and "parseFlexibleDate (dateParse cfg) (e_now en) (normalizeText (Some txt)) = Inr None"
  shows "\<exists>s'. sessions (on_message cfg en w msg) (m_chat msg) = Some s' \<and>
               d_date (s_data s') = Some (e_now en) \<and>
               d_dateRaw (s_data s') = Some (normalizeText (Some txt))"
proof -
  have sk: "\<not> isSkipText (Some (normalizeText (Some txt)))"
    using assms(7) by (simp add: isSkipText_normalizeText)
  have now: "safeDateISO (dateParse cfg) (e_now en) (normalizeText (Some txt)) = e_now en"
    using assms(9) assms(8) by (rule parseFlexibleDate_unresolved)
  have st: "stepInput cfg en msg s =
      Inr (leave (setData (\<lambda>d. d\<lparr>d_date := Some (e_now en),
              d_dateRaw := Some (normalizeText (Some txt))\<rparr>) s) Count (AskStep Count))"
    using assms(2,4,8,9) sk now by (simp add: stepInput_def dateStep_def Let_def)
  show ?thesis
    unfolding on_message_in_session [OF assms(1,3,4,5,6)] st
    by (simp add: sessions_applyStep data_leave setData_def)
qed

theorem date_fallback_witness:
  "\<exists>s'. sessions (on_message exampleConfig exampleEnv (exampleWorld Date)
            (textMessage ''sometime next week'')) 1 = Some s' \<and>
        d_date (s_data s') = Some 1766241000000 \<and>
        d_dateRaw (s_data s') = Some ''sometime next week''"
proof -
  let ?txt = "''sometime next week''"
  have n: "normalizeText (Some ?txt) = ?txt"
    by (simp add: text_defs)
  have 1: "sessions (exampleWorld Date) (m_chat (textMessage ?txt)) = Some (exampleSession Date)"
    by (simp add: exampleWorld_def textMessage_def)
  have 2: "s_step (exampleSession Date) = Date" by (simp add: exampleSession_def)
  have 3: "\<not> m_edit_date (textMessage ?txt)" by (simp add: textMessage_def)
  have 4: "m_text (textMessage ?txt) = Some ?txt" by (simp add: textMessage_def)
  have 5: "\<not> startsWith ?txt [CHR 0x5C]" by (simp add: startsWith_def)
  have 6: "\<not> isCommandText (Some ?txt)"
    by (simp add: isCommandText_def commandWords_def text_defs)
  have 7: "\<not> isSkipText (Some ?txt)" by (simp add: text_defs)
  have 8: "normalizeText (Some ?txt) \<noteq> []" by (simp add: n)
  have k: "\<not> isNowKeyword (toLowerCase (trim ?txt))"
    by (simp add: isNowKeyword_def text_defs)
  have r: "dateRegex ?txt = None"
    by (simp add: dateRegex_def isDigit_def)
  have 9: "parseFlexibleDate (dateParse exampleConfig) (e_now exampleEnv) (normalizeText (Some ?txt))
      = Inr None"
    unfolding n using k r by (simp add: parseFlexibleDate_def exampleConfig_def newDate_def)
  from date_fallback [OF 1 2 3 4 5 6 7 8 9]
  show ?thesis by (simp add: n textMessage_def exampleEnv_def)
qed

subsection \<open>The location step\<close>

text \<open>
  Claim C10. In a session at the location step, a typed text that is neither a command,
  nor the skip token, nor one of the two keyboard labels, and that the geocoder does not
  resolve, is stored trimmed as the location, and latitude and longitude are both set to
  null, whatever they were before.
\<close>

theorem failed_geocode_clears_coordinates:
  assumes "sessions w (m_chat msg) = Some s" and "s_step s = Location" and "\<not> m_edit_date msg"
    and "m_text msg = Some txt" and "\<not> startsWith txt [CHR 0x5C]"
    and "\<not> isCommandText (Some txt)" and "\<not> isSkipText (Some txt)"
    and "m_location msg = None" and "txt \<noteq> []"
    and "txt \<noteq> ''Send my location''" and "txt \<noteq> ''Type location''"
    and "geocodeLocation en (normalizeText (Some txt)) = None"
  shows "\<exists>s'. sessions (on_message cfg en w msg) (m_chat msg) = Some s' \<and>
               d_location (s_data s') = Some (normalizeText (Some txt)) \<and>
               d_lat (s_data s') = None \<and> d_lng (s_data s') = None"
proof -
  have st: "stepInput cfg en msg s =
      Inr (leave (setData (\<lambda>d. d\<lparr>d_location := Some (normalizeText (Some txt)),
              d_lat := None, d_lng := None\<rparr>) s) Attachment LocationAsText)"
    using assms(2,4,7,8,9,10,11,12)
    by (simp add: stepInput_def locationStep_def Let_def truthy_def)
  show ?thesis
    unfolding on_message_in_session [OF assms(1,3,4,5,6)] st
    by (simp add: sessions_applyStep data_leave setData_def)
qed

theorem failed_geocode_clears_coordinates_witness:
  "d_lat (s_data (exampleSession Location)) = Some (Fin 3) \<and>
   (\<exists>s'. sessions (on_message exampleConfig exampleEnv (exampleWorld Location)
            (textMessage ''Kampung Baru'')) 1 = Some s' \<and>
        d_location (s_data s') = Some ''Kampung Baru'' \<and>
        d_lat (s_data s') = None \<and> d_lng (s_data s') = None)"
proof -
  let ?txt = "''Kampung Baru''"
  have n: "normalizeText (Some ?txt) = ?txt"
    by (simp add: text_defs)
  have 1: "sessions (exampleWorld Location) (m_chat (textMessage ?txt)) = Some (exampleSession Location)"
    by (simp add: exampleWorld_def textMessage_def)
  have 2: "s_step (exampleSession Location) = Location" by (simp add: exampleSession_def)
  have 3: "\<not> m_edit_date (textMessage ?txt)" by (simp add: textMessage_def)
  have 4: "m_text (textMessage ?txt) = Some ?txt" by (simp add: textMessage_def)
  have 5: "\<not> startsWith ?txt [CHR 0x5C]" by (simp add: startsWith_def)
  have 6: "\<not> isCommandText (Some ?txt)"
    by (simp add: isCommandText_def commandWords_def text_defs)
  have 7: "\<not> isSkipText (Some ?txt)" by (simp add: text_defs)
  have 8: "m_location (textMessage ?txt) = None" by (simp add: textMessage_def)
  have 9: "?txt \<noteq> []" by simp
  have 10: "?txt \<noteq> ''Send my location''" by simp
  have 11: "?txt \<noteq> ''Type location''" by simp
  have 12: "geocodeLocation exampleEnv (normalizeText (Some ?txt)) = None"
    by (simp add: geocodeLocation_def exampleEnv_def)
  have 0: "d_lat (s_data (exampleSession Location)) = Some (Fin 3)"
    by (simp add: exampleSession_def exampleDraft_def)
  from failed_geocode_clears_coordinates [OF 1 2 3 4 5 6 7 8 9 10 11 12, of exampleConfig]
  show ?thesis using 0 by (simp add: n textMessage_def)
qed

subsection \<open>Skipping the count step\<close>

text \<open>
  Claim C1, on the code. In a session at the count step that is not in field-menu mode,
  the command \<open>/skip\<close>, handled by \<open>handleSkip\<close>, sets the count to null in either mode,
  while the plain text \<open>skip\<close>, handled by the message handler, keeps the count of an
  edit session and clears the one of a create session. The witness is the edit session
  seeded with the count 1200: the plain text keeps 1200, the command clears it.
\<close>

theorem skip_at_count_step:
  assumes "sessions w (m_chat msg) = Some s" and "s_step s = Count" and "\<not> isEditMenuMode s"
  shows "(\<exists>s'. sessions (on_skip cfg en w msg) (m_chat msg) = Some s' \<and>
               d_count (s_data s') = None) \<and>
         (\<not> m_edit_date msg \<and> m_text msg = Some typed \<and> \<not> startsWith typed [CHR 0x5C] \<and>
          \<not> isCommandText (Some typed) \<and> isSkipText (Some typed) \<longrightarrow>
          (\<exists>s'. sessions (on_message cfg en w msg) (m_chat msg) = Some s' \<and>
               d_count (s_data s') = (if s_mode s = Edit then d_count (s_data s) else None)))"
proof (intro conjI impI)
  show "\<exists>s'. sessions (on_skip cfg en w msg) (m_chat msg) = Some s' \<and> d_count (s_data s') = None"
    using assms by (simp add: on_skip_def handleSkip_def sessions_applyStep setData_def)
next
  assume h: "\<not> m_edit_date msg \<and> m_text msg = Some typed \<and> \<not> startsWith typed [CHR 0x5C] \<and>
          \<not> isCommandText (Some typed) \<and> isSkipText (Some typed)"
  have st: "stepInput cfg en msg s =
      Inr (leave (if s_mode s \<noteq> Edit then setData (\<lambda>d. d\<lparr>d_count := None\<rparr>) s else s)
             Location (AskStep Location))"
    using assms(2) h by (simp add: stepInput_def countStep_def)
  have m: "on_message cfg en w msg =
    (case stepInput cfg en msg s of
       Inl e \<Rightarrow> endSession (m_chat msg) (send (m_chat msg) [Say ''Error occurred, session canceled''] w)
     | Inr r \<Rightarrow> applyStep (m_chat msg) r w)"
    using h assms(1) by (intro on_message_in_session) auto
  show "\<exists>s'. sessions (on_message cfg en w msg) (m_chat msg) = Some s' \<and>
               d_count (s_data s') = (if s_mode s = Edit then d_count (s_data s) else None)"
    unfolding m st by (simp add: sessions_applyStep data_leave setData_def)
qed

theorem skip_at_count_step_witness:
  "s_mode (exampleSession Count) = Edit \<and>
   d_count (s_data (exampleSession Count)) = Some (CNum (Fin 1200)) \<and>
   (\<exists>s'. sessions (on_skip exampleConfig exampleEnv (exampleWorld Count) (textMessage ''/skip'')) 1
           = Some s' \<and> d_count (s_data s') = None) \<and>
   (\<exists>s'. sessions (on_message exampleConfig exampleEnv (exampleWorld Count) (textMessage ''skip'')) 1
           = Some s' \<and> d_count (s_data s') = Some (CNum (Fin 1200)))"
proof -
  have 1: "sessions (exampleWorld Count) (m_chat (textMessage t)) = Some (exampleSession Count)" for t
    by (simp add: exampleWorld_def textMessage_def)
  have 2: "s_step (exampleSession Count) = Count" by (simp add: exampleSession_def)
  have 3: "\<not> isEditMenuMode (exampleSession Count)"
    by (simp add: exampleSession_def isEditMenuMode_def)
  have 4: "\<not> m_edit_date (textMessage ''skip'') \<and> m_text (textMessage ''skip'') = Some ''skip'' \<and>
      \<not> startsWith ''skip'' [CHR 0x5C] \<and> \<not> isCommandText (Some ''skip'') \<and> isSkipText (Some ''skip'')"
    by (simp add: textMessage_def isCommandText_def commandWords_def text_defs)
  have 5: "s_mode (exampleSession Count) = Edit" by (simp add: exampleSession_def)
  have 6: "d_count (s_data (exampleSession Count)) = Some (CNum (Fin 1200))"
    by (simp add: exampleSession_def exampleDraft_def)
  note ta = skip_at_count_step [where msg="textMessage ''/skip''" and cfg=exampleConfig
      and en=exampleEnv, OF 1 2 3]
  from ta have a: "\<exists>s'. sessions (on_skip exampleConfig exampleEnv (exampleWorld Count) (textMessage ''/skip''))
      (m_chat (textMessage ''/skip'')) = Some s' \<and> d_count (s_data s') = None"
    by blast
  note tb = skip_at_count_step [where msg="textMessage ''skip''" and cfg=exampleConfig
      and en=exampleEnv and typed="''skip''", OF 1 2 3]
  from tb 4 have b: "\<exists>s'. sessions (on_message exampleConfig exampleEnv (exampleWorld Count) (textMessage ''skip''))
      (m_chat (textMessage ''skip'')) = Some s' \<and>
      d_count (s_data s') = (if s_mode (exampleSession Count) = Edit
          then d_count (s_data (exampleSession Count)) else None)"
    by blast
  show ?thesis using a b 5 6 by (simp add: textMessage_def)
qed

subsection \<open>Starting a dialogue while a session is active\<close>

text \<open>
  Claim C2, on the code. When the conversation has a session and the sender is allowed,
  \<open>beginEditFlow\<close> only sends the message that tells the user to cancel first and leaves
  the sessions as they are, while \<open>beginGuidedFlow\<close> replaces the session with a fresh
  create session at the title step with an empty draft.
\<close>

theorem start_while_session_active:
  assumes "sessions w chatId = Some s" and "isAllowed (ALLOWED cfg) u"
  shows "beginEditFlow cfg en w chatId u ident =
           send chatId [Say ''You are already in a session. Type /cancel to stop it first.''] w \<and>
         sessions (send chatId [Say ''You are already in a session. Type /cancel to stop it first.''] w)
           = sessions w \<and>
         sessions (beginGuidedFlow cfg w chatId u) chatId =
           Some \<lparr>s_userId = u, s_mode = Create, s_editMode = NoEditMode, s_step = Title,
                 s_data = emptyDraft, s_pending = None\<rparr>"
  using assms
  by (simp add: beginEditFlow_def beginGuidedFlow_def send_def startSession_def)

theorem start_while_session_active_witness:
  "sessions (exampleWorld Count) 1 = Some (exampleSession Count) \<and>
   isAllowed (ALLOWED exampleConfig) 7 \<and>
   sessions (beginEditFlow exampleConfig exampleEnv (exampleWorld Count) 1 7 (Some ''a-22222222'')) 1
     = Some (exampleSession Count) \<and>
   sessions (beginGuidedFlow exampleConfig (exampleWorld Count) 1 7) 1 \<noteq> Some (exampleSession Count) \<and>
   (\<exists>s'. sessions (beginGuidedFlow exampleConfig (exampleWorld Count) 1 7) 1 = Some s' \<and>
         s_mode s' = Create \<and> s_step s' = Title \<and> d_count (s_data s') = None)"
proof -
  have 1: "sessions (exampleWorld Count) 1 = Some (exampleSession Count)"
    by (simp add: exampleWorld_def)
  have 2: "isAllowed (ALLOWED exampleConfig) 7"
    by (simp add: isAllowed_def exampleConfig_def)
  note t = start_while_session_active [OF 1 2, of exampleEnv "Some ''a-22222222''"]
  have ne: "\<lparr>s_userId = 7, s_mode = Create, s_editMode = NoEditMode, s_step = Title,
                 s_data = emptyDraft, s_pending = None\<rparr> \<noteq> exampleSession Count"
    by (simp add: exampleSession_def)
  show ?thesis using t 1 2 ne by (simp add: emptyDraft_def)
qed

subsection \<open>Identifier prefixes\<close>











subsection \<open>Authorization\<close>

lemma send_keeps:
  "sessions (send c os w) = sessions w \<and> activities (send c os w) = activities w \<and>
   pendingMenuActionByChatId (send c os w) = pendingMenuActionByChatId w"
  by (simp add: send_def)

text \<open>
  Claim C9, as the code has it. \<open>isAllowed\<close> is true exactly when the allow-list is
  empty or holds the sender's id. When it is false, each of the entry points new, edit,
  delete and add only sends a refusal and changes neither the sessions, nor the stored
  activities, nor the pending menu actions; the refusal reads \<open>Not authorized\<close> for edit,
  delete and add, and \<open>You are not authorized to use guided input.\<close> for new. Help and
  list answer all the same.
\<close>

theorem authorization_gate:
  "isAllowed allowed u = (allowed = [] \<or> Some u \<in> set allowed) \<and>
   (\<not> isAllowed (ALLOWED cfg) (m_from msg) \<longrightarrow>
      on_new cfg w msg = send (m_chat msg) [Say ''You are not authorized to use guided input.''] w \<and>
      on_edit cfg en w msg arg = send (m_chat msg) [Say ''Not authorized''] w \<and>
      on_delete cfg en w msg arg = send (m_chat msg) [Say ''Not authorized''] w \<and>
      on_add cfg en w msg arg = send (m_chat msg) [Say ''Not authorized''] w \<and>
      on_help w msg = send (m_chat msg) [ShowHelp] w \<and>
      on_list w msg = send (m_chat msg) [ShowList] w) \<and>
   sessions (send c os w) = sessions w \<and> activities (send c os w) = activities w \<and>
   pendingMenuActionByChatId (send c os w) = pendingMenuActionByChatId w"
  by (simp add: isAllowed_def on_new_def beginGuidedFlow_def on_edit_def beginEditFlow_def
      on_delete_def handleDeleteById_def on_add_def on_help_def on_list_def send_keeps)

theorem authorization_gate_witness:
  "\<not> isAllowed (ALLOWED (exampleConfig\<lparr>ALLOWED := [Some 42]\<rparr>)) (m_from (textMessage ''/edit abc12d'')) \<and>
   on_edit (exampleConfig\<lparr>ALLOWED := [Some 42]\<rparr>) exampleEnv emptyWorld (textMessage ''/edit abc12d'') ''abc12d''
     = emptyWorld\<lparr>outbox := [(1, Say ''Not authorized'')]\<rparr> \<and>
   on_help emptyWorld (textMessage ''/edit abc12d'') = emptyWorld\<lparr>outbox := [(1, ShowHelp)]\<rparr>"
proof -
  have n: "\<not> isAllowed (ALLOWED (exampleConfig\<lparr>ALLOWED := [Some 42]\<rparr>)) (m_from (textMessage ''/edit abc12d''))"
    by (simp add: isAllowed_def textMessage_def)
  note g = authorization_gate [where cfg="exampleConfig\<lparr>ALLOWED := [Some 42]\<rparr>"
      and msg="textMessage ''/edit abc12d''" and w=emptyWorld and en=exampleEnv and arg="''abc12d''",
      THEN conjunct2, THEN conjunct1, rule_format, OF n]
  show ?thesis using n g by (simp add: send_def emptyWorld_def textMessage_def)
qed

theorem new_refusal_wording_counterexample:
  "\<not> isAllowed (ALLOWED (exampleConfig\<lparr>ALLOWED := [Some 42]\<rparr>)) (m_from (textMessage ''/new'')) \<and>
   outbox (on_new (exampleConfig\<lparr>ALLOWED := [Some 42]\<rparr>) emptyWorld (textMessage ''/new''))
     = [(1, Say ''You are not authorized to use guided input.'')] \<and>
   (1, Say ''Not authorized'') \<notin> set (outbox (on_new (exampleConfig\<lparr>ALLOWED := [Some 42]\<rparr>) emptyWorld
       (textMessage ''/new'')))"
  by (simp add: isAllowed_def textMessage_def on_new_def beginGuidedFlow_def send_def emptyWorld_def)

subsection \<open>Going back and entering the same input again\<close>

lemma setData_sel [simp]:
  "s_mode (setData f s) = s_mode s" "s_editMode (setData f s) = s_editMode s"
  "s_step (setData f s) = s_step s" "s_pending (setData f s) = s_pending s"
  "s_userId (setData f s) = s_userId s" "s_data (setData f s) = f (s_data s)"
  by (simp_all add: setData_def)

lemma setData_step [simp]: "setData f (s\<lparr>s_step := x\<rparr>) = (setData f s)\<lparr>s_step := x\<rparr>"
  by (simp add: setData_def)

lemma setData_setData [simp]: "setData f (setData g s) = setData (\<lambda>d. f (g d)) s"
  by (simp add: setData_def)

lemma isEditMenuMode_upd [simp]:
  "isEditMenuMode (setData f s) = isEditMenuMode s"
  "isEditMenuMode (s\<lparr>s_step := x\<rparr>) = isEditMenuMode s"
  by (simp_all add: isEditMenuMode_def)


lemma leave_step [simp]: "leave (s\<lparr>s_step := x\<rparr>) nxt r = leave s nxt r"
  by (simp add: leave_def)











lemma withWebPath_idem: "withWebPath (withWebPath a) = withWebPath a"
  by (simp add: withWebPath_def)

lemma map_option_withWebPath_idem:
  "map_option withWebPath (map_option withWebPath a) = map_option withWebPath a"
  by (cases a) (simp_all add: withWebPath_idem)

lemma sendPreview_again:
  "sendPreview en ((fst (sendPreview en s))\<lparr>s_step := x\<rparr>) = sendPreview en s"
  by (simp add: sendPreview_def Let_def map_option_withWebPath_idem)


lemma setData_again:
  assumes gg: "\<And>d. g (g d) = g d"
  shows "setData g ((setData g s)\<lparr>s_step := x\<rparr>) = (setData g s)\<lparr>s_step := x\<rparr>"
  by (simp add: setData_def gg)




lemma stepPrev_table:
  "stepPrev Type = Some Title \<and> stepPrev Date = Some Type \<and> stepPrev Count = Some Date \<and>
   stepPrev Location = Some Count \<and> stepPrev Attachment = Some Location \<and>
   stepPrev Note = Some Attachment \<and> stepPrev Confirming = Some Note \<and>
   stepPrev Title = None \<and> stepPrev EditMenu = None"
  by (simp add: stepPrev_def)


















subsection \<open>The confirming step\<close>





















end
